theory Spec2Isabelle
  imports Main "HOL-Library.Word"
begin

unbundle bit_operations_syntax

section \<open>The platform around Echo.cpp\<close>

text \<open>
  \<^verbatim>\<open>src/jni/Echo.cpp\<close> talks to two outside parties: the Java runtime, through the
  \<^verbatim>\<open>JNIEnv\<close> functions, and the kernel, through the socket calls. Both are inputs of
  the model. The Java side is a record of what its lookups answer (\<open>host\<close>); the kernel
  side is a script of the replies its calls give (\<open>os\<close>). Everything the native code
  does to the outside is written into the \<open>state\<close>: the lines handed to \<^verbatim>\<open>logMessage\<close>,
  the pending Java exception, the exceptions raised with \<^verbatim>\<open>ThrowNew\<close>, \<^verbatim>\<open>errno\<close>, and
  the system calls in the order they were made, each with its arguments and its reply.
\<close>

type_synonym jthrowable = "string \<times> string"
  \<comment> \<open>class name and message of a Java exception\<close>

datatype 'a reply = Failed int | Returned 'a
  \<comment> \<open>a system call either fails (\<^verbatim>\<open>-1\<close>, or \<^verbatim>\<open>NULL\<close>, with the given \<^verbatim>\<open>errno\<close>) or returns a value\<close>

record sockaddr_in =
  sin_family :: nat
  sin_port :: "16 word"
  sin_addr :: "32 word"

datatype syscall =
    Socket "nat reply"
  | Bind int sockaddr_in "unit reply"
  | GetSockName int "sockaddr_in reply"
  | Listen int int "unit reply"
  | Accept int "(nat \<times> sockaddr_in) reply"
  | InetNtop "32 word" "string reply"
  | Recv int nat "string reply"
  | Send int string "nat reply"
  | Close int

record host =
  getMethodID_ok :: bool
    \<comment> \<open>\<^verbatim>\<open>GetMethodID(clazz, "logMessage", ...)\<close> finds the method\<close>
  newStringUTF_ok :: bool
    \<comment> \<open>\<^verbatim>\<open>NewStringUTF\<close> returns a string\<close>
  findClass_ok :: "string \<Rightarrow> bool"
    \<comment> \<open>\<^verbatim>\<open>FindClass(className)\<close> returns a class\<close>
  strerror_r :: "int \<Rightarrow> int \<times> string \<times> int"
    \<comment> \<open>\<^verbatim>\<open>strerror_r(errnum, buffer, 256)\<close>: the value returned, the text left in the
        buffer, and the \<^verbatim>\<open>errno\<close> it sets when it returns \<^verbatim>\<open>-1\<close>\<close>

record os =
  socket_reply :: "nat reply"
  bind_reply :: "unit reply"
  getsockname_reply :: "sockaddr_in reply"
  listen_reply :: "unit reply"
  accept_reply :: "(nat \<times> sockaddr_in) reply"
  inet_ntop_reply :: "string reply"
  recv_replies :: "string reply list"
    \<comment> \<open>what the successive \<^verbatim>\<open>recv\<close> calls find; when the list is used up the next
        \<^verbatim>\<open>recv\<close> blocks for ever\<close>
  send_replies :: "nat reply list"
    \<comment> \<open>how many bytes the successive \<^verbatim>\<open>send\<close> calls take; when the list is used up
        the next \<^verbatim>\<open>send\<close> blocks for ever\<close>
  stack_bytes :: string
    \<comment> \<open>what the uninitialised \<^verbatim>\<open>char buffer[MAX_BUFFER_SIZE]\<close> holds at first\<close>

record state =
  methodID :: bool
    \<comment> \<open>the \<^verbatim>\<open>static jmethodID methodID\<close> of \<^verbatim>\<open>LogMessage\<close> is not \<^verbatim>\<open>NULL\<close>\<close>
  logs :: "string list"
  pending :: "jthrowable option"
    \<comment> \<open>what \<^verbatim>\<open>env->ExceptionOccurred()\<close> returns\<close>
  thrown :: "jthrowable list"
    \<comment> \<open>the exceptions raised by \<^verbatim>\<open>ThrowNew\<close>, oldest first\<close>
  errno :: int
  syscalls :: "syscall list"
  faulted :: bool
    \<comment> \<open>an access went outside its array (undefined behaviour in C++)\<close>

datatype outcome = Returns state | Blocks state
  \<comment> \<open>an entry point either returns, or stays blocked in a system call for ever;
      the state is the one reached at that moment\<close>

fun final :: "outcome \<Rightarrow> state" where
  "final (Returns s) = s"
| "final (Blocks s) = s"

fun returns :: "outcome \<Rightarrow> bool" where
  "returns (Returns s) = True"
| "returns (Blocks s) = False"

definition MAX_LOG_MESSAGE_LENGTH :: nat where
  "MAX_LOG_MESSAGE_LENGTH = 256"

definition MAX_BUFFER_SIZE :: nat where
  "MAX_BUFFER_SIZE = 80"

definition NUL :: char where
  "NUL = CHR 0x00"

definition IOException :: string where
  "IOException = ''java/io/IOException''"

subsection \<open>C library functions the code uses\<close>

definition digit :: "nat \<Rightarrow> char" where
  "digit d = ''0123456789'' ! d"

fun dec :: "nat \<Rightarrow> string" where
  "dec n = (if n < 10 then [digit n] else dec (n div 10) @ [digit (n mod 10)])"

declare dec.simps [simp del]

definition fmt_hu :: "16 word \<Rightarrow> string" where
  \<comment> \<open>\<^verbatim>\<open>%hu\<close>\<close>
  "fmt_hu p = dec (unat p)"

definition fmt_d :: "int \<Rightarrow> string" where
  \<comment> \<open>\<^verbatim>\<open>%d\<close>\<close>
  "fmt_d i = (if i < 0 then ''-'' @ dec (nat (- i)) else dec (nat i))"

definition fmt_s :: "string \<Rightarrow> string" where
  \<comment> \<open>\<^verbatim>\<open>%s\<close>: the characters before the first zero byte\<close>
  "fmt_s buffer = takeWhile (\<lambda>c. c \<noteq> NUL) buffer"

definition vsnprintf :: "nat \<Rightarrow> string \<Rightarrow> string" where
  \<comment> \<open>the formatted text cut to \<open>n - 1\<close> characters, the last place being the zero byte\<close>
  "vsnprintf n text = take (n - 1) text"

definition htons :: "16 word \<Rightarrow> 16 word" where
  \<comment> \<open>byte swap: every Android ABI is little-endian\<close>
  "htons x = push_bit 8 x OR drop_bit 8 x"

definition ntohs :: "16 word \<Rightarrow> 16 word" where
  "ntohs x = push_bit 8 x OR drop_bit 8 x"

definition htonl :: "32 word \<Rightarrow> 32 word" where
  "htonl x = push_bit 24 x OR push_bit 8 (x AND 0xFF00) OR (drop_bit 8 x AND 0xFF00) OR drop_bit 24 x"

definition INADDR_ANY :: "32 word" where
  "INADDR_ANY = 0"

definition AF_INET :: nat where
  "AF_INET = 2"

definition size_t_of :: "int \<Rightarrow> nat" where
  \<comment> \<open>the cast \<^verbatim>\<open>(size_t) recvSize\<close> on a 32-bit ABI\<close>
  "size_t_of i = nat (i mod 2 ^ 32)"

subsection \<open>System calls\<close>

text \<open>
  Each call takes the kernel's reply, records itself in \<open>syscalls\<close> and returns what the
  C function returns; a failing call sets \<^verbatim>\<open>errno\<close>. \<^verbatim>\<open>recv\<close> never stores more than the
  \<open>len\<close> bytes it was asked for, and \<^verbatim>\<open>send\<close> never takes more than it was given. A
  \<^verbatim>\<open>recv\<close> that stores more bytes than the array has, and a \<^verbatim>\<open>send\<close> that is told to read
  more, go outside the array.
\<close>

definition record_call :: "syscall \<Rightarrow> state \<Rightarrow> state" where
  "record_call c s = s\<lparr>syscalls := syscalls s @ [c]\<rparr>"

definition fail_with :: "int \<Rightarrow> state \<Rightarrow> state" where
  "fail_with e s = s\<lparr>errno := e\<rparr>"

definition sys_socket :: "nat reply \<Rightarrow> state \<Rightarrow> int \<times> state" where
  "sys_socket r s =
     (case r of
        Failed e \<Rightarrow> (- 1, fail_with e (record_call (Socket r) s))
      | Returned fd \<Rightarrow> (int fd, record_call (Socket r) s))"

definition sys_bind :: "unit reply \<Rightarrow> int \<Rightarrow> sockaddr_in \<Rightarrow> state \<Rightarrow> int \<times> state" where
  "sys_bind r sd address s =
     (case r of
        Failed e \<Rightarrow> (- 1, fail_with e (record_call (Bind sd address r) s))
      | Returned u \<Rightarrow> (0, record_call (Bind sd address r) s))"

definition sys_getsockname :: "sockaddr_in reply \<Rightarrow> int \<Rightarrow> state \<Rightarrow> int \<times> sockaddr_in option \<times> state" where
  "sys_getsockname r sd s =
     (case r of
        Failed e \<Rightarrow> (- 1, None, fail_with e (record_call (GetSockName sd r) s))
      | Returned a \<Rightarrow> (0, Some a, record_call (GetSockName sd r) s))"

definition sys_listen :: "unit reply \<Rightarrow> int \<Rightarrow> int \<Rightarrow> state \<Rightarrow> int \<times> state" where
  "sys_listen r sd backlog s =
     (case r of
        Failed e \<Rightarrow> (- 1, fail_with e (record_call (Listen sd backlog r) s))
      | Returned u \<Rightarrow> (0, record_call (Listen sd backlog r) s))"

definition sys_accept :: "(nat \<times> sockaddr_in) reply \<Rightarrow> int \<Rightarrow> state \<Rightarrow> int \<times> sockaddr_in option \<times> state" where
  "sys_accept r sd s =
     (case r of
        Failed e \<Rightarrow> (- 1, None, fail_with e (record_call (Accept sd r) s))
      | Returned (fd, a) \<Rightarrow> (int fd, Some a, record_call (Accept sd r) s))"

definition sys_inet_ntop :: "string reply \<Rightarrow> 32 word \<Rightarrow> state \<Rightarrow> string option \<times> state" where
  "sys_inet_ntop r a s =
     (case r of
        Failed e \<Rightarrow> (None, fail_with e (record_call (InetNtop a r) s))
      | Returned ip \<Rightarrow> (Some ip, record_call (InetNtop a r) s))"

definition out_of_bounds :: "bool \<Rightarrow> state \<Rightarrow> state" where
  "out_of_bounds outside s = (if outside then s\<lparr>faulted := True\<rparr> else s)"

definition sys_recv :: "string reply \<Rightarrow> int \<Rightarrow> string \<Rightarrow> nat \<Rightarrow> state \<Rightarrow> int \<times> string \<times> state" where
  "sys_recv r sd buffer len s =
     (case r of
        Failed e \<Rightarrow> (- 1, buffer, fail_with e (record_call (Recv sd len r) s))
      | Returned bytes \<Rightarrow>
          (let got = take len bytes
           in (int (length got), got @ drop (length got) buffer,
               out_of_bounds (length buffer < length got)
                 (record_call (Recv sd len (Returned got)) s))))"

definition sys_send :: "nat reply \<Rightarrow> int \<Rightarrow> string \<Rightarrow> nat \<Rightarrow> state \<Rightarrow> int \<times> state" where
  "sys_send r sd buffer len s =
     (case r of
        Failed e \<Rightarrow>
          (- 1, out_of_bounds (length buffer < len)
                  (fail_with e (record_call (Send sd (take len buffer) r) s)))
      | Returned m \<Rightarrow>
          (int (min m len),
           out_of_bounds (length buffer < len)
             (record_call (Send sd (take len buffer) (Returned (min m len))) s)))"

definition sys_close :: "int \<Rightarrow> state \<Rightarrow> state" where
  "sys_close fd s = record_call (Close fd) s"

subsection \<open>The JNI functions\<close>

text \<open>
  A lookup that fails leaves the runtime's own exception pending; \<^verbatim>\<open>ThrowNew\<close> makes the
  given exception the pending one.
\<close>

definition jni_fails :: "string \<Rightarrow> string \<Rightarrow> state \<Rightarrow> state" where
  "jni_fails cls what s = s\<lparr>pending := Some (cls, what)\<rparr>"

definition ThrowNew :: "string \<Rightarrow> string \<Rightarrow> state \<Rightarrow> state" where
  "ThrowNew cls message s =
     s\<lparr>pending := Some (cls, message), thrown := thrown s @ [(cls, message)]\<rparr>"

definition ExceptionOccurred :: "state \<Rightarrow> bool" where
  "ExceptionOccurred s = (pending s \<noteq> None)"

section \<open>The functions of Echo.cpp\<close>

definition LogMessage :: "host \<Rightarrow> string \<Rightarrow> state \<Rightarrow> state" where
  \<comment> \<open>the second argument is the format with its arguments filled in\<close>
  "LogMessage h formatted s =
     (let s1 = (if \<not> methodID s
                then (if getMethodID_ok h then s\<lparr>methodID := True\<rparr>
                      else jni_fails ''java/lang/NoSuchMethodError'' ''logMessage'' s)
                else s)
      in if methodID s1
         then (let buffer = vsnprintf MAX_LOG_MESSAGE_LENGTH formatted
               in if newStringUTF_ok h
                  then s1\<lparr>logs := logs s1 @ [buffer]\<rparr>
                  else jni_fails ''java/lang/OutOfMemoryError'' buffer s1)
         else s1)"

definition ThrowException :: "host \<Rightarrow> string \<Rightarrow> string \<Rightarrow> state \<Rightarrow> state" where
  "ThrowException h className message s =
     (if findClass_ok h className
      then ThrowNew className message s
      else jni_fails ''java/lang/NoClassDefFoundError'' className s)"

definition ThrowErrnoException :: "host \<Rightarrow> string \<Rightarrow> int \<Rightarrow> state \<Rightarrow> state" where
  "ThrowErrnoException h className errnum s =
     (case strerror_r h errnum of
        (r, buffer, e) \<Rightarrow>
          if r = - 1
          then (let s1 = fail_with e s
                in case strerror_r h (errno s1) of
                     (r2, buffer2, e2) \<Rightarrow>
                       ThrowException h className buffer2
                         (if r2 = - 1 then fail_with e2 s1 else s1))
          else ThrowException h className buffer s)"

definition NewTcpSocket :: "host \<Rightarrow> nat reply \<Rightarrow> state \<Rightarrow> int \<times> state" where
  "NewTcpSocket h r s =
     (let s1 = LogMessage h ''Constructing a new TCP socket...'' s;
          (tcpSocket, s2) = sys_socket r s1
      in if tcpSocket = - 1
         then (tcpSocket, ThrowErrnoException h IOException (errno s2) s2)
         else (tcpSocket, s2))"

definition store :: "string \<Rightarrow> nat \<Rightarrow> char \<Rightarrow> state \<Rightarrow> string \<times> state" where
  \<comment> \<open>\<^verbatim>\<open>buffer[i] = c\<close>; outside the array the behaviour is undefined, which the state records\<close>
  "store buffer i c s =
     (if i < length buffer then (buffer[i := c], s) else (buffer, s\<lparr>faulted := True\<rparr>))"

definition c_string :: "string \<Rightarrow> state \<Rightarrow> string \<times> state" where
  \<comment> \<open>the array read as the argument of \<^verbatim>\<open>%s\<close>: with no zero byte in it the read runs
      past its end\<close>
  "c_string buffer s = (fmt_s buffer, out_of_bounds (NUL \<notin> set buffer) s)"

definition new_buffer :: "string \<Rightarrow> string" where
  \<comment> \<open>\<^verbatim>\<open>char buffer[MAX_BUFFER_SIZE]\<close>: as many bytes as that, whatever they are\<close>
  "new_buffer garbage = take MAX_BUFFER_SIZE (garbage @ replicate MAX_BUFFER_SIZE NUL)"

definition BindSocketToPort :: "host \<Rightarrow> unit reply \<Rightarrow> int \<Rightarrow> 16 word \<Rightarrow> state \<Rightarrow> state" where
  "BindSocketToPort h r sd port s =
     (let address = \<lparr>sin_family = AF_INET, sin_port = htons port, sin_addr = htonl INADDR_ANY\<rparr>;
          s1 = LogMessage h (''Binding to port '' @ fmt_hu port @ ''.'') s;
          (rc, s2) = sys_bind r sd address s1
      in if rc = - 1
         then ThrowErrnoException h IOException (errno s2) s2
         else s2)"

definition GetSocketPort :: "host \<Rightarrow> sockaddr_in reply \<Rightarrow> int \<Rightarrow> state \<Rightarrow> 16 word \<times> state" where
  "GetSocketPort h r sd s =
     (case sys_getsockname r sd s of
        (rc, filled, s1) \<Rightarrow>
          if rc = - 1
          then (0, ThrowErrnoException h IOException (errno s1) s1)
          else (case filled of
                  None \<Rightarrow> (0, s1)
                | Some address \<Rightarrow>
                    (let port = ntohs (sin_port address)
                     in (port, LogMessage h (''Binded to random port '' @ fmt_hu port @ ''.'') s1))))"

definition ListenOnSocket :: "host \<Rightarrow> unit reply \<Rightarrow> int \<Rightarrow> int \<Rightarrow> state \<Rightarrow> state" where
  "ListenOnSocket h r sd backlog s =
     (let s1 = LogMessage h (''Listening on socket with a backlog of '' @ fmt_d backlog
                              @ '' pending connections.'') s;
          (rc, s2) = sys_listen r sd backlog s1
      in if rc = - 1
         then ThrowErrnoException h IOException (errno s2) s2
         else s2)"

definition LogAddress :: "host \<Rightarrow> string reply \<Rightarrow> string \<Rightarrow> sockaddr_in \<Rightarrow> state \<Rightarrow> state" where
  "LogAddress h r message address s =
     (case sys_inet_ntop r (sin_addr address) s of
        (None, s1) \<Rightarrow> ThrowErrnoException h IOException (errno s1) s1
      | (Some ip, s1) \<Rightarrow>
          (let port = ntohs (sin_port address)
           in LogMessage h (message @ '' '' @ ip @ '':'' @ fmt_hu port @ ''.'') s1))"

definition AcceptOnSocket :: "host \<Rightarrow> (nat \<times> sockaddr_in) reply \<Rightarrow> string reply \<Rightarrow> int \<Rightarrow> state \<Rightarrow> int \<times> state" where
  \<comment> \<open>the second reply is the one \<^verbatim>\<open>inet_ntop\<close> gives inside \<^verbatim>\<open>LogAddress\<close>\<close>
  "AcceptOnSocket h r rn sd s =
     (let s1 = LogMessage h ''Waiting for a client connection...'' s
      in case sys_accept r sd s1 of
           (clientSocket, filled, s2) \<Rightarrow>
             if clientSocket = - 1
             then (clientSocket, ThrowErrnoException h IOException (errno s2) s2)
             else (case filled of
                     None \<Rightarrow> (clientSocket, s2)
                   | Some address \<Rightarrow>
                       (clientSocket, LogAddress h rn ''Client connection from '' address s2)))"

definition ReceiveFromSocket :: "host \<Rightarrow> string reply option \<Rightarrow> int \<Rightarrow> string \<Rightarrow> nat \<Rightarrow> state \<Rightarrow> (int \<times> string) option \<times> state" where
  \<comment> \<open>the reply \<open>None\<close> is a \<^verbatim>\<open>recv\<close> that never returns; then the function does not
      return either, and the result is \<open>None\<close> with the state reached\<close>
  "ReceiveFromSocket h ro sd buffer bufferSize s =
     (let s1 = LogMessage h ''Receiving from the socket...'' s
      in case ro of
           None \<Rightarrow> (None, s1)
         | Some r \<Rightarrow>
             (case sys_recv r sd buffer (size_t_of (int bufferSize - 1)) s1 of
                (recvSize, buffer1, s2) \<Rightarrow>
                  if recvSize = - 1
                  then (Some (recvSize, buffer1), ThrowErrnoException h IOException (errno s2) s2)
                  else (case store buffer1 (nat recvSize) NUL s2 of
                          (buffer2, s3) \<Rightarrow>
                            if recvSize > 0
                            then (case c_string buffer2 s3 of
                                    (text, s4) \<Rightarrow>
                                      (Some (recvSize, buffer2),
                                       LogMessage h (''Received '' @ fmt_d recvSize @ '' bytes: ''
                                                     @ text) s4))
                            else (Some (recvSize, buffer2),
                                  LogMessage h ''Client disconnected.'' s3))))"

definition SendToSocket :: "host \<Rightarrow> nat reply option \<Rightarrow> int \<Rightarrow> string \<Rightarrow> nat \<Rightarrow> state \<Rightarrow> int option \<times> state" where
  \<comment> \<open>the reply \<open>None\<close> is a \<^verbatim>\<open>send\<close> that never returns\<close>
  "SendToSocket h qo sd buffer bufferSize s =
     (let s1 = LogMessage h ''Sending to the socket...'' s
      in case qo of
           None \<Rightarrow> (None, s1)
         | Some q \<Rightarrow>
             (case sys_send q sd buffer bufferSize s1 of
                (sentSize, s2) \<Rightarrow>
                  if sentSize = - 1
                  then (Some sentSize, ThrowErrnoException h IOException (errno s2) s2)
                  else if sentSize > 0
                  then (case c_string buffer s2 of
                          (text, s3) \<Rightarrow>
                            (Some sentSize,
                             LogMessage h (''Sent '' @ fmt_d sentSize @ '' bytes: '' @ text) s3))
                  else (Some sentSize, LogMessage h ''Client disconnected.'' s2)))"

definition nativeStartTcpClient :: "host \<Rightarrow> nat reply \<Rightarrow> string \<Rightarrow> 32 word \<Rightarrow> string \<Rightarrow> state \<Rightarrow> state" where
  "nativeStartTcpClient h r ip port message s =
     (let (clientSocket, s1) = NewTcpSocket h r s
      in if \<not> ExceptionOccurred s1 then sys_close clientSocket s1 else s1)"

fun echo_loop :: "host \<Rightarrow> int \<Rightarrow> string reply list \<Rightarrow> nat reply list \<Rightarrow> string \<Rightarrow> state \<Rightarrow> outcome" where
  \<comment> \<open>the \<^verbatim>\<open>while (1)\<close> of the server, on the replies the \<^verbatim>\<open>recv\<close> and \<^verbatim>\<open>send\<close> calls
      still have to come\<close>
  "echo_loop h sd [] ss buffer s =
     (case ReceiveFromSocket h None sd buffer MAX_BUFFER_SIZE s of
        (_, s1) \<Rightarrow> Blocks s1)"
| "echo_loop h sd (r # rs) ss buffer s =
     (case ReceiveFromSocket h (Some r) sd buffer MAX_BUFFER_SIZE s of
        (None, s1) \<Rightarrow> Blocks s1
      | (Some (recvSize, buffer1), s1) \<Rightarrow>
          if recvSize = 0 \<or> ExceptionOccurred s1
          then Returns s1
          else (case SendToSocket h (case ss of [] \<Rightarrow> None | q # _ \<Rightarrow> Some q)
                       sd buffer1 (size_t_of recvSize) s1 of
                  (None, s2) \<Rightarrow> Blocks s2
                | (Some sentSize, s2) \<Rightarrow>
                    if sentSize = 0 \<or> ExceptionOccurred s2
                    then Returns s2
                    else echo_loop h sd rs (tl ss) buffer1 s2))"

declare echo_loop.simps [simp del]

definition server_exit :: "int \<Rightarrow> state \<Rightarrow> state" where
  \<comment> \<open>the code at the label \<^verbatim>\<open>exit\<close>\<close>
  "server_exit serverSocket s = (if serverSocket > 0 then sys_close serverSocket s else s)"

definition server_listen_on :: "host \<Rightarrow> os \<Rightarrow> int \<Rightarrow> state \<Rightarrow> outcome" where
  \<comment> \<open>the server from \<^verbatim>\<open>ListenOnSocket\<close> on\<close>
  "server_listen_on h k serverSocket s =
     (let s1 = ListenOnSocket h (listen_reply k) serverSocket 4 s
      in if ExceptionOccurred s1
         then Returns (server_exit serverSocket s1)
         else (let (clientSocket, s2) =
                     AcceptOnSocket h (accept_reply k) (inet_ntop_reply k) serverSocket s1
               in if ExceptionOccurred s2
                  then Returns (server_exit serverSocket s2)
                  else (case echo_loop h clientSocket (recv_replies k) (send_replies k)
                               (new_buffer (stack_bytes k)) s2 of
                          Blocks s3 \<Rightarrow> Blocks s3
                        | Returns s3 \<Rightarrow>
                            Returns (server_exit serverSocket (sys_close clientSocket s3)))))"

definition nativeStartTcpServer :: "host \<Rightarrow> os \<Rightarrow> 32 word \<Rightarrow> state \<Rightarrow> outcome" where
  "nativeStartTcpServer h k port s =
     (let (serverSocket, s1) = NewTcpSocket h (socket_reply k) s
      in if \<not> ExceptionOccurred s1
         then (let s2 = BindSocketToPort h (bind_reply k) serverSocket (ucast port) s1
               in if ExceptionOccurred s2
                  then Returns (server_exit serverSocket s2)
                  else if port = 0
                  then (let (bound, s3) = GetSocketPort h (getsockname_reply k) serverSocket s2
                        in if ExceptionOccurred s3
                           then Returns (server_exit serverSocket s3)
                           else server_listen_on h k serverSocket s3)
                  else server_listen_on h k serverSocket s2)
         else Returns (server_exit serverSocket s1))"

section \<open>Vocabulary of the properties\<close>

subsection \<open>The host\<close>

text \<open>
  The specification takes the logging sink and the error channel as given: a message
  handed to the sink is logged, an error handed to the channel is raised. That is a host
  on which the lookups of \<^verbatim>\<open>LogMessage\<close> and \<^verbatim>\<open>ThrowException\<close> succeed.
\<close>

definition host_ok :: "host \<Rightarrow> bool" where
  "host_ok h = (getMethodID_ok h \<and> newStringUTF_ok h \<and> findClass_ok h IOException)"

definition strerror_text :: "host \<Rightarrow> int \<Rightarrow> string" where
  \<comment> \<open>the text the platform has for an error number\<close>
  "strerror_text h n = fst (snd (strerror_r h n))"

definition errno_message :: "host \<Rightarrow> int \<Rightarrow> string" where
  \<comment> \<open>the message \<^verbatim>\<open>ThrowErrnoException\<close> gives the exception for an error number\<close>
  "errno_message h errnum =
     (case strerror_r h errnum of
        (r, buffer, e) \<Rightarrow>
          if r = - 1 then (case strerror_r h e of (r2, buffer2, e2) \<Rightarrow> buffer2) else buffer)"

definition log_line :: "string \<Rightarrow> string" where
  \<comment> \<open>a formatted message as it reaches the log\<close>
  "log_line text = vsnprintf MAX_LOG_MESSAGE_LENGTH text"

subsection \<open>Rounds of the echo loop\<close>

text \<open>
  A round is a chunk \<open>c\<close> that a \<^verbatim>\<open>recv\<close> delivers and the number \<open>m\<close> of bytes the
  \<^verbatim>\<open>send\<close> that follows is ready to take. These are the calls and the log lines that the
  specification expects of a list of rounds: for each round, in order, the \<^verbatim>\<open>recv\<close> of
  the chunk and then the \<^verbatim>\<open>send\<close> of the same bytes.
\<close>

definition round_calls :: "int \<Rightarrow> string \<Rightarrow> nat \<Rightarrow> syscall list" where
  "round_calls sd c m = [Recv sd 79 (Returned c), Send sd c (Returned (min m (length c)))]"

definition round_logs :: "string \<Rightarrow> nat \<Rightarrow> string list" where
  "round_logs c m =
     [log_line ''Receiving from the socket...'',
      log_line (''Received '' @ fmt_d (int (length c)) @ '' bytes: '' @ fmt_s c),
      log_line ''Sending to the socket...'',
      log_line (''Sent '' @ fmt_d (int (min m (length c))) @ '' bytes: '' @ fmt_s c)]"

fun echo_calls :: "int \<Rightarrow> (string \<times> nat) list \<Rightarrow> syscall list" where
  "echo_calls sd [] = []"
| "echo_calls sd ((c, m) # rounds) = round_calls sd c m @ echo_calls sd rounds"

fun echo_logs :: "(string \<times> nat) list \<Rightarrow> string list" where
  "echo_logs [] = []"
| "echo_logs ((c, m) # rounds) = round_logs c m @ echo_logs rounds"

subsection \<open>What one call adds to the trace\<close>

fun delivered :: "nat \<Rightarrow> string reply \<Rightarrow> string reply" where
  \<comment> \<open>the reply of a \<^verbatim>\<open>recv\<close> that was asked for \<open>len\<close> bytes\<close>
  "delivered len (Failed e) = Failed e"
| "delivered len (Returned bytes) = Returned (take len bytes)"

fun accepted :: "nat \<Rightarrow> nat reply \<Rightarrow> nat reply" where
  \<comment> \<open>the reply of a \<^verbatim>\<open>send\<close> that was given \<open>len\<close> bytes\<close>
  "accepted len (Failed e) = Failed e"
| "accepted len (Returned m) = Returned (min m len)"

fun recv_calls :: "int \<Rightarrow> nat \<Rightarrow> string reply option \<Rightarrow> syscall list" where
  "recv_calls sd len None = []"
| "recv_calls sd len (Some r) = [Recv sd len (delivered len r)]"

fun send_calls :: "int \<Rightarrow> string \<Rightarrow> nat \<Rightarrow> nat reply option \<Rightarrow> syscall list" where
  "send_calls sd buffer len None = []"
| "send_calls sd buffer len (Some q) = [Send sd (take len buffer) (accepted len q)]"

definition is_io :: "syscall \<Rightarrow> bool" where
  "is_io c = (case c of Recv sd len r \<Rightarrow> True | Send sd bytes q \<Rightarrow> True | _ \<Rightarrow> False)"

definition within_buffer :: "syscall \<Rightarrow> bool" where
  \<comment> \<open>a \<^verbatim>\<open>recv\<close> asks for 79 bytes and delivers no more\<close>
  "within_buffer c =
     (case c of
        Recv sd len r \<Rightarrow> len = 79 \<and> (case r of Failed e \<Rightarrow> True | Returned bytes \<Rightarrow> length bytes \<le> 79)
      | _ \<Rightarrow> True)"

subsection \<open>Discover\<close>

definition is_getsockname :: "syscall \<Rightarrow> bool" where
  "is_getsockname c = (case c of GetSockName sd r \<Rightarrow> True | _ \<Rightarrow> False)"

definition reports_port :: "string \<Rightarrow> bool" where
  \<comment> \<open>a log line of \<^verbatim>\<open>GetSocketPort\<close>\<close>
  "reports_port line = (take 22 line = ''Binded to random port '')"

definition quiet :: "state \<Rightarrow> state \<Rightarrow> bool" where
  \<comment> \<open>from \<open>s\<close> to \<open>s'\<close> calls were made and lines were logged, none of them by Discover\<close>
  "quiet s s' =
     (\<exists>calls lines. syscalls s' = syscalls s @ calls \<and> logs s' = logs s @ lines
        \<and> list_all (\<lambda>c. \<not> is_getsockname c) calls \<and> list_all (\<lambda>l. \<not> reports_port l) lines)"

definition bind_address :: "16 word \<Rightarrow> sockaddr_in" where
  \<comment> \<open>the address \<^verbatim>\<open>BindSocketToPort\<close> hands to \<^verbatim>\<open>bind\<close> for a port\<close>
  "bind_address port = \<lparr>sin_family = AF_INET, sin_port = htons port, sin_addr = htonl INADDR_ANY\<rparr>"

subsection \<open>Descriptors\<close>

fun opens :: "syscall \<Rightarrow> int list \<Rightarrow> int list" where
  "opens (Socket (Returned fd)) ds = ds @ [int fd]"
| "opens (Accept sd (Returned (fd, a))) ds = ds @ [int fd]"
| "opens (Close fd) ds = removeAll fd ds"
| "opens c ds = ds"

definition open_descriptors :: "syscall list \<Rightarrow> int list" where
  \<comment> \<open>the descriptors that a trace has obtained and not closed\<close>
  "open_descriptors calls = fold opens calls []"

subsection \<open>A host, a kernel and a state for the examples\<close>

definition example_host :: host where
  "example_host = \<lparr>getMethodID_ok = True, newStringUTF_ok = True,
                    findClass_ok = (\<lambda>c. c = IOException),
                    strerror_r = (\<lambda>n. (0, ''Connection reset by peer'', 0))\<rparr>"

definition entry_state :: state where
  \<comment> \<open>the state when the host calls an entry point for the first time\<close>
  "entry_state = \<lparr>methodID = False, logs = [], pending = None, thrown = [], errno = 0,
                   syscalls = [], faulted = False\<rparr>"

definition example_os :: os where
  \<comment> \<open>descriptors 3 and 4, a client at 127.0.0.1:5555 that sends \<^verbatim>\<open>ping\<close> and disconnects;
      \<^verbatim>\<open>getsockname\<close> would find port 40000\<close>
  "example_os =
     \<lparr>socket_reply = Returned 3, bind_reply = Returned (),
      getsockname_reply = Returned \<lparr>sin_family = 2, sin_port = 0x409C, sin_addr = 0\<rparr>,
      listen_reply = Returned (),
      accept_reply = Returned (4, \<lparr>sin_family = 2, sin_port = 0xB315, sin_addr = 0x0100007F\<rparr>),
      inet_ntop_reply = Returned ''127.0.0.1'',
      recv_replies = [Returned ''ping'', Returned []],
      send_replies = [Returned 4],
      stack_bytes = []\<rparr>"

section \<open>Effects of the helper functions\<close>

text \<open>
  What logging and raising change in the state, on any host, and what they do on a host
  whose lookups succeed.
\<close>

lemma out_of_bounds_simps [simp]:
  "out_of_bounds False s = s"
  "out_of_bounds True s = s\<lparr>faulted := True\<rparr>"
  by (simp_all add: out_of_bounds_def)

lemma out_of_bounds_fields [simp]:
  "syscalls (out_of_bounds b s) = syscalls s"
  "logs (out_of_bounds b s) = logs s"
  "thrown (out_of_bounds b s) = thrown s"
  "pending (out_of_bounds b s) = pending s"
  "errno (out_of_bounds b s) = errno s"
  "methodID (out_of_bounds b s) = methodID s"
  by (simp_all add: out_of_bounds_def)

lemma c_string_terminated:
  "NUL \<in> set buffer \<Longrightarrow> c_string buffer s = (fmt_s buffer, s)"
  by (simp add: c_string_def)

lemma ExceptionOccurred_updates [simp]:
  "ExceptionOccurred (s\<lparr>methodID := a\<rparr>) = ExceptionOccurred s"
  "ExceptionOccurred (s\<lparr>logs := b\<rparr>) = ExceptionOccurred s"
  "ExceptionOccurred (s\<lparr>thrown := c\<rparr>) = ExceptionOccurred s"
  "ExceptionOccurred (s\<lparr>errno := d\<rparr>) = ExceptionOccurred s"
  "ExceptionOccurred (s\<lparr>syscalls := e\<rparr>) = ExceptionOccurred s"
  "ExceptionOccurred (s\<lparr>faulted := f\<rparr>) = ExceptionOccurred s"
  "ExceptionOccurred (out_of_bounds g s) = ExceptionOccurred s"
  by (simp_all add: ExceptionOccurred_def)

lemma LogMessage_syscalls [simp]: "syscalls (LogMessage h m s) = syscalls s"
  by (simp add: LogMessage_def jni_fails_def Let_def)

lemma LogMessage_thrown [simp]: "thrown (LogMessage h m s) = thrown s"
  by (simp add: LogMessage_def jni_fails_def Let_def)

lemma LogMessage_errno [simp]: "errno (LogMessage h m s) = errno s"
  by (simp add: LogMessage_def jni_fails_def Let_def)

lemma LogMessage_faulted [simp]: "faulted (LogMessage h m s) = faulted s"
  by (simp add: LogMessage_def jni_fails_def Let_def)

lemma LogMessage_ok:
  "host_ok h \<Longrightarrow>
   LogMessage h m s = s\<lparr>methodID := True, logs := logs s @ [vsnprintf MAX_LOG_MESSAGE_LENGTH m]\<rparr>"
  by (simp add: LogMessage_def host_ok_def Let_def)

lemma log_line_short: "length text \<le> 255 \<Longrightarrow> log_line text = text"
  by (simp add: log_line_def vsnprintf_def MAX_LOG_MESSAGE_LENGTH_def)

lemma ThrowException_syscalls [simp]: "syscalls (ThrowException h c m s) = syscalls s"
  by (simp add: ThrowException_def ThrowNew_def jni_fails_def)

lemma ThrowException_logs [simp]: "logs (ThrowException h c m s) = logs s"
  by (simp add: ThrowException_def ThrowNew_def jni_fails_def)

lemma ThrowException_faulted [simp]: "faulted (ThrowException h c m s) = faulted s"
  by (simp add: ThrowException_def ThrowNew_def jni_fails_def)

lemma ThrowException_methodID [simp]: "methodID (ThrowException h c m s) = methodID s"
  by (simp add: ThrowException_def ThrowNew_def jni_fails_def)

lemma ThrowException_raises [simp]: "ExceptionOccurred (ThrowException h c m s)"
  by (simp add: ThrowException_def ThrowNew_def jni_fails_def ExceptionOccurred_def)

lemma ThrowErrnoException_syscalls [simp]: "syscalls (ThrowErrnoException h c e s) = syscalls s"
  by (simp add: ThrowErrnoException_def fail_with_def Let_def split: prod.splits)

lemma ThrowErrnoException_logs [simp]: "logs (ThrowErrnoException h c e s) = logs s"
  by (simp add: ThrowErrnoException_def fail_with_def Let_def split: prod.splits)

lemma ThrowErrnoException_faulted [simp]: "faulted (ThrowErrnoException h c e s) = faulted s"
  by (simp add: ThrowErrnoException_def fail_with_def Let_def split: prod.splits)

lemma ThrowErrnoException_methodID [simp]: "methodID (ThrowErrnoException h c e s) = methodID s"
  by (simp add: ThrowErrnoException_def fail_with_def Let_def split: prod.splits)

lemma ThrowErrnoException_raises [simp]: "ExceptionOccurred (ThrowErrnoException h c e s)"
  by (simp add: ThrowErrnoException_def Let_def split: prod.splits)

lemma ThrowErrnoException_ok_pending:
  "host_ok h \<Longrightarrow>
   pending (ThrowErrnoException h IOException e s) = Some (IOException, errno_message h e)"
  by (simp add: ThrowErrnoException_def ThrowException_def ThrowNew_def errno_message_def
      host_ok_def fail_with_def Let_def split: prod.splits)

lemma ThrowErrnoException_ok_thrown:
  "host_ok h \<Longrightarrow>
   thrown (ThrowErrnoException h IOException e s) = thrown s @ [(IOException, errno_message h e)]"
  by (simp add: ThrowErrnoException_def ThrowException_def ThrowNew_def errno_message_def
      host_ok_def fail_with_def Let_def split: prod.splits)

lemma ThrowErrnoException_thrown_any:
  "\<exists>new. thrown (ThrowErrnoException h c e s) = thrown s @ new \<and> length new \<le> 1"
  by (auto simp: ThrowErrnoException_def ThrowException_def ThrowNew_def jni_fails_def
      fail_with_def Let_def split: prod.splits)

lemma errno_message_nonempty:
  "\<forall>n. strerror_text h n \<noteq> [] \<Longrightarrow> errno_message h e \<noteq> []"
  by (auto simp: errno_message_def strerror_text_def split: prod.splits)
     (metis fst_conv snd_conv)+

lemma example_host_ok: "host_ok example_host"
  by (simp add: host_ok_def example_host_def)

lemma entry_state_clean: "\<not> ExceptionOccurred entry_state"
  by (simp add: ExceptionOccurred_def entry_state_def)

section \<open>One receive, one send\<close>

lemma fmt_s_terminated: "fmt_s (c @ NUL # rest) = fmt_s c"
  by (induction c) (simp_all add: fmt_s_def)

lemma size_t_of_int: "size_t_of (int n) = n mod 2 ^ 32"
  by (simp add: size_t_of_def nat_mod_distrib)

lemma size_t_of_79 [simp]: "size_t_of 79 = 79"
  by (simp add: size_t_of_def)

lemma terminate_at_end:
  assumes "length c < length buffer"
  shows "(c @ drop (length c) buffer)[length c := NUL] = c @ NUL # drop (Suc (length c)) buffer"
proof -
  have "drop (length c) buffer = buffer ! length c # drop (Suc (length c)) buffer"
    using assms by (simp add: Cons_nth_drop_Suc)
  then show ?thesis
    by (simp add: list_update_append)
qed

lemma ReceiveFromSocket_data:
  assumes "host_ok h" and "length buffer = 80" and "length c \<le> 79" and "c \<noteq> []"
  shows "ReceiveFromSocket h (Some (Returned c)) sd buffer MAX_BUFFER_SIZE s =
           (Some (int (length c), c @ NUL # drop (Suc (length c)) buffer),
            s\<lparr>methodID := True,
              logs := logs s @ [vsnprintf MAX_LOG_MESSAGE_LENGTH ''Receiving from the socket...'',
                                vsnprintf MAX_LOG_MESSAGE_LENGTH
                                  (''Received '' @ fmt_d (int (length c)) @ '' bytes: '' @ fmt_s c)],
              syscalls := syscalls s @ [Recv sd 79 (Returned c)]\<rparr>)"
  using assms
  by (simp add: ReceiveFromSocket_def sys_recv_def store_def record_call_def c_string_terminated
      LogMessage_ok terminate_at_end fmt_s_terminated MAX_BUFFER_SIZE_def Let_def)

lemma ReceiveFromSocket_returned:
  assumes "length buffer = MAX_BUFFER_SIZE"
  shows "fst (ReceiveFromSocket h (Some (Returned bytes)) sd buffer MAX_BUFFER_SIZE s)
           = Some (int (length (take 79 bytes)),
                   take 79 bytes @ NUL # drop (Suc (length (take 79 bytes))) buffer)"
proof -
  have "length (take 79 bytes) < length buffer"
    using assms by (simp add: MAX_BUFFER_SIZE_def)
  moreover have "min (length bytes) 79 < 80"
    by (simp add: min_less_iff_disj)
  ultimately show ?thesis
    using terminate_at_end [of "take 79 bytes" buffer] assms
    by (simp add: ReceiveFromSocket_def sys_recv_def store_def MAX_BUFFER_SIZE_def Let_def
        split: prod.splits)
qed

lemma ReceiveFromSocket_logs:
  assumes "host_ok h" and "length buffer = MAX_BUFFER_SIZE"
  shows "logs (snd (ReceiveFromSocket h (Some (Returned bytes)) sd buffer MAX_BUFFER_SIZE s))
           = logs s @ [log_line ''Receiving from the socket...'',
                       if take 79 bytes = [] then log_line ''Client disconnected.''
                       else log_line (''Received '' @ fmt_d (int (length (take 79 bytes)))
                                      @ '' bytes: '' @ fmt_s (take 79 bytes))]"
proof -
  have "length (take 79 bytes) < length buffer"
    using assms(2) by (simp add: MAX_BUFFER_SIZE_def)
  moreover have "min (length bytes) 79 < 80"
    by (simp add: min_less_iff_disj)
  ultimately show ?thesis
    using terminate_at_end [of "take 79 bytes" buffer] assms
      fmt_s_terminated [of "take 79 bytes" "drop (Suc (length (take 79 bytes))) buffer"]
    by (simp add: ReceiveFromSocket_def sys_recv_def store_def c_string_def record_call_def
        LogMessage_ok log_line_def MAX_BUFFER_SIZE_def Let_def)
qed

lemma ReceiveFromSocket_syscalls:
  "ReceiveFromSocket h ro sd buffer n s = (res, s1) \<Longrightarrow>
   syscalls s1 = syscalls s @ recv_calls sd (size_t_of (int n - 1)) ro"
  by (auto simp: ReceiveFromSocket_def sys_recv_def store_def c_string_def record_call_def
      fail_with_def Let_def split: option.splits reply.splits if_splits)

lemma ReceiveFromSocket_blocks:
  "ReceiveFromSocket h ro sd buffer n s = (res, s1) \<Longrightarrow> (res = None) = (ro = None)"
  by (auto simp: ReceiveFromSocket_def sys_recv_def store_def c_string_def Let_def
      split: option.splits reply.splits if_splits prod.splits)

lemma ReceiveFromSocket_bounds:
  assumes "ReceiveFromSocket h (Some r) sd buffer MAX_BUFFER_SIZE s = (Some (recvSize, buffer1), s1)"
    and "length buffer = MAX_BUFFER_SIZE"
  shows "length buffer1 = MAX_BUFFER_SIZE \<and> faulted s1 = faulted s \<and> - 1 \<le> recvSize \<and> recvSize \<le> 79
         \<and> (recvSize = - 1 \<longrightarrow> ExceptionOccurred s1)
         \<and> (0 \<le> recvSize \<longrightarrow> buffer1 ! nat recvSize = NUL)"
  using assms
  by (auto simp: ReceiveFromSocket_def sys_recv_def store_def c_string_def record_call_def
      fail_with_def MAX_BUFFER_SIZE_def Let_def nth_append set_update_memI
      split: reply.splits if_splits)

lemma SendToSocket_sent:
  assumes "host_ok h" and "0 < m" and "0 < n" and "n \<le> length buffer" and "NUL \<in> set buffer"
  shows "SendToSocket h (Some (Returned m)) sd buffer n s =
           (Some (int (min m n)),
            s\<lparr>methodID := True,
              logs := logs s @ [log_line ''Sending to the socket...'',
                                log_line (''Sent '' @ fmt_d (int (min m n)) @ '' bytes: '' @ fmt_s buffer)],
              syscalls := syscalls s @ [Send sd (take n buffer) (Returned (min m n))]\<rparr>)"
  using assms
  by (simp add: SendToSocket_def sys_send_def record_call_def c_string_terminated LogMessage_ok
      log_line_def Let_def)

lemma SendToSocket_syscalls:
  "SendToSocket h qo sd buffer n s = (res, s1) \<Longrightarrow>
   syscalls s1 = syscalls s @ send_calls sd buffer n qo"
  by (auto simp: SendToSocket_def sys_send_def c_string_def record_call_def fail_with_def
      Let_def split: option.splits reply.splits if_splits)

lemma SendToSocket_faulted:
  "SendToSocket h qo sd buffer n s = (res, s1) \<Longrightarrow> n \<le> length buffer \<Longrightarrow>
   NUL \<in> set buffer \<Longrightarrow> faulted s1 = faulted s"
  by (auto simp: SendToSocket_def sys_send_def c_string_def record_call_def fail_with_def
      Let_def split: option.splits reply.splits if_splits)

lemma within_buffer_recv: "list_all within_buffer (recv_calls sd 79 ro)"
  by (cases ro; simp add: within_buffer_def) (rename_tac r, case_tac r; simp)

lemma within_buffer_send: "list_all within_buffer (send_calls sd b n qo)"
  by (cases qo; simp add: within_buffer_def)

section \<open>The echo loop\<close>

text \<open>
  One round of the loop, the three ways the loop ends, any number of rounds, and what
  holds of every run of the loop.
\<close>

lemma echo_loop_round:
  assumes "host_ok h" and "\<not> ExceptionOccurred s" and "length buffer = 80"
    and "c \<noteq> []" and "length c \<le> 79" and "0 < m"
  shows "echo_loop h sd (Returned c # rs) (Returned m # ss) buffer s =
           echo_loop h sd rs ss (c @ NUL # drop (Suc (length c)) buffer)
             (s\<lparr>methodID := True, logs := logs s @ round_logs c m,
                syscalls := syscalls s @ round_calls sd c m\<rparr>)"
proof -
  have pos: "(min m (length c) = 0) = False"
    using assms(4,6) by auto
  show ?thesis
    using assms
    by (simp add: echo_loop.simps pos ReceiveFromSocket_data SendToSocket_sent size_t_of_int
        fmt_s_terminated round_logs_def round_calls_def log_line_def)
qed

lemma echo_loop_disconnect:
  assumes "host_ok h" and "length buffer = 80"
  shows "echo_loop h sd (Returned [] # rs) ss buffer s =
           Returns (s\<lparr>methodID := True,
                      logs := logs s @ [log_line ''Receiving from the socket...'',
                                        log_line ''Client disconnected.''],
                      syscalls := syscalls s @ [Recv sd 79 (Returned [])]\<rparr>)"
proof -
  have "buffer \<noteq> []" using assms(2) by auto
  with assms show ?thesis
  by (simp add: echo_loop.simps ReceiveFromSocket_def sys_recv_def store_def record_call_def
      LogMessage_ok log_line_def MAX_BUFFER_SIZE_def Let_def)
qed

lemma echo_loop_recv_failed:
  assumes "host_ok h"
  shows "echo_loop h sd (Failed e # rs) ss buffer s =
           Returns (ThrowErrnoException h IOException e
                      (s\<lparr>methodID := True,
                         logs := logs s @ [log_line ''Receiving from the socket...''],
                         syscalls := syscalls s @ [Recv sd 79 (Failed e)],
                         errno := e\<rparr>))"
  using assms
  by (simp add: echo_loop.simps ReceiveFromSocket_def sys_recv_def record_call_def fail_with_def
      LogMessage_ok log_line_def MAX_BUFFER_SIZE_def Let_def)

lemma echo_loop_send_failed:
  assumes "host_ok h" and "\<not> ExceptionOccurred s" and "length buffer = 80"
    and "c \<noteq> []" and "length c \<le> 79"
  shows "echo_loop h sd (Returned c # rs) (Failed e # ss) buffer s =
           Returns (ThrowErrnoException h IOException e
                      (s\<lparr>methodID := True,
                         logs := logs s @ [log_line ''Receiving from the socket...'',
                                           log_line (''Received '' @ fmt_d (int (length c)) @ '' bytes: '' @ fmt_s c),
                                           log_line ''Sending to the socket...''],
                         syscalls := syscalls s @ [Recv sd 79 (Returned c), Send sd c (Failed e)],
                         errno := e\<rparr>))"
  using assms
  by (simp add: echo_loop.simps ReceiveFromSocket_data SendToSocket_def sys_send_def record_call_def fail_with_def
      LogMessage_ok size_t_of_int log_line_def Let_def)

lemma echo_loop_rounds:
  assumes "host_ok h" and "\<not> ExceptionOccurred s" and "length buffer = 80"
    and "\<forall>(c, m) \<in> set rounds. c \<noteq> [] \<and> length c \<le> 79 \<and> 0 < m"
  shows "\<exists>buffer' s'.
           (\<forall>rs ss. echo_loop h sd (map (Returned \<circ> fst) rounds @ rs) (map (Returned \<circ> snd) rounds @ ss) buffer s
                    = echo_loop h sd rs ss buffer' s') \<and>
           length buffer' = 80 \<and> pending s' = pending s \<and> thrown s' = thrown s \<and>
           faulted s' = faulted s \<and>
           logs s' = logs s @ echo_logs rounds \<and>
           syscalls s' = syscalls s @ echo_calls sd rounds"
  using assms
proof (induction rounds arbitrary: buffer s)
  case Nil
  then show ?case by auto
next
  case (Cons r rounds)
  obtain c m where r: "r = (c, m)" by (cases r)
  let ?b = "c @ NUL # drop (Suc (length c)) buffer"
  let ?s = "s\<lparr>methodID := True, logs := logs s @ round_logs c m,
                syscalls := syscalls s @ round_calls sd c m\<rparr>"
  from Cons.prems r have c: "c \<noteq> []" "length c \<le> 79" "0 < m" by auto
  have step: "echo_loop h sd (Returned c # rs) (Returned m # ss) buffer s = echo_loop h sd rs ss ?b ?s"
    for rs ss
    using Cons.prems(1-3) c by (rule echo_loop_round)
  have "length ?b = 80" using c Cons.prems(3) by simp
  moreover have "\<not> ExceptionOccurred ?s" using Cons.prems(2) by simp
  moreover have "\<forall>(c, m) \<in> set rounds. c \<noteq> [] \<and> length c \<le> 79 \<and> 0 < m" using Cons.prems(4) by simp
  ultimately obtain b' s' where
    rest: "\<forall>rs ss. echo_loop h sd (map (Returned \<circ> fst) rounds @ rs) (map (Returned \<circ> snd) rounds @ ss) ?b ?s
                    = echo_loop h sd rs ss b' s'"
      "length b' = 80" "pending s' = pending ?s" "thrown s' = thrown ?s" "faulted s' = faulted ?s"
      "logs s' = logs ?s @ echo_logs rounds" "syscalls s' = syscalls ?s @ echo_calls sd rounds"
    using Cons.IH [OF Cons.prems(1), of ?s ?b] by blast
  have main: "echo_loop h sd (map (Returned \<circ> fst) (r # rounds) @ rs)
                 (map (Returned \<circ> snd) (r # rounds) @ ss) buffer s
               = echo_loop h sd rs ss b' s'" for rs ss
  proof -
    have "echo_loop h sd (map (Returned \<circ> fst) (r # rounds) @ rs)
            (map (Returned \<circ> snd) (r # rounds) @ ss) buffer s
          = echo_loop h sd (Returned c # (map (Returned \<circ> fst) rounds @ rs))
              (Returned m # (map (Returned \<circ> snd) rounds @ ss)) buffer s"
      by (simp add: r)
    also have "\<dots> = echo_loop h sd (map (Returned \<circ> fst) rounds @ rs)
                        (map (Returned \<circ> snd) rounds @ ss) ?b ?s"
      by (rule step)
    also have "\<dots> = echo_loop h sd rs ss b' s'"
      using rest(1) by blast
    finally show ?thesis .
  qed
  show ?case
  proof (intro exI conjI)
    show "\<forall>rs ss. echo_loop h sd (map (Returned \<circ> fst) (r # rounds) @ rs)
                    (map (Returned \<circ> snd) (r # rounds) @ ss) buffer s
                  = echo_loop h sd rs ss b' s'"
      using main by blast
    show "length b' = 80" by fact
    show "pending s' = pending s" using rest(3) by simp
    show "thrown s' = thrown s" using rest(4) by simp
    show "faulted s' = faulted s" using rest(5) by simp
    show "logs s' = logs s @ echo_logs (r # rounds)" using rest(6) by (simp add: r)
    show "syscalls s' = syscalls s @ echo_calls sd (r # rounds)" using rest(7) by (simp add: r)
  qed
qed

lemma echo_loop_until_disconnect:
  assumes "host_ok h" and "\<not> ExceptionOccurred s" and "length buffer = MAX_BUFFER_SIZE"
    and "\<forall>(c, m) \<in> set rounds. c \<noteq> [] \<and> length c \<le> MAX_BUFFER_SIZE - 1 \<and> 0 < m"
  shows "\<exists>t. echo_loop h sd (map (Returned \<circ> fst) rounds @ Returned [] # rs)
               (map (Returned \<circ> snd) rounds @ ss) buffer s = Returns t
             \<and> thrown t = thrown s
             \<and> syscalls t = syscalls s @ echo_calls sd rounds @ [Recv sd 79 (Returned [])]"
proof -
  have len: "length buffer = 80" using assms(3) by (simp add: MAX_BUFFER_SIZE_def)
  have ok: "\<forall>(c, m) \<in> set rounds. c \<noteq> [] \<and> length c \<le> 79 \<and> 0 < m"
    using assms(4) by (simp add: MAX_BUFFER_SIZE_def)
  from echo_loop_rounds [OF assms(1,2) len ok, of sd] obtain b' s' where
    run: "\<And>rs ss. echo_loop h sd (map (Returned \<circ> fst) rounds @ rs) (map (Returned \<circ> snd) rounds @ ss) buffer s
                   = echo_loop h sd rs ss b' s'"
    and b': "length b' = 80" and calls: "syscalls s' = syscalls s @ echo_calls sd rounds"
    and thr: "thrown s' = thrown s"
    by blast
  show ?thesis
    unfolding run using calls thr
    by (simp add: echo_loop_disconnect [OF assms(1) b'])
qed

lemma echo_loop_bounds:
  assumes "length buffer = MAX_BUFFER_SIZE"
  shows "faulted (final (echo_loop h sd rs ss buffer s)) = faulted s \<and>
         (\<exists>new. syscalls (final (echo_loop h sd rs ss buffer s)) = syscalls s @ new
                \<and> list_all within_buffer new \<and> list_all is_io new)"
  using assms
proof (induction rs arbitrary: ss buffer s)
  case Nil
  obtain res s1 where r: "ReceiveFromSocket h None sd buffer MAX_BUFFER_SIZE s = (res, s1)"
    by (cases "ReceiveFromSocket h None sd buffer MAX_BUFFER_SIZE s")
  then have "syscalls s1 = syscalls s" "faulted s1 = faulted s"
    by (auto simp: ReceiveFromSocket_def Let_def)
  with r show ?case by (simp add: echo_loop.simps)
next
  case (Cons r rs)
  obtain res s1 where rcv: "ReceiveFromSocket h (Some r) sd buffer MAX_BUFFER_SIZE s = (res, s1)"
    by (cases "ReceiveFromSocket h (Some r) sd buffer MAX_BUFFER_SIZE s")
  from ReceiveFromSocket_blocks [OF rcv] obtain recvSize buffer1 where res: "res = Some (recvSize, buffer1)"
    by (cases res) auto
  note b = ReceiveFromSocket_bounds [OF rcv [unfolded res] Cons.prems]
  have c1: "syscalls s1 = syscalls s @ recv_calls sd 79 (Some r)"
    using ReceiveFromSocket_syscalls [OF rcv] by (simp add: MAX_BUFFER_SIZE_def)
  have io1: "list_all is_io (recv_calls sd 79 (Some r))" by (simp add: is_io_def)
  show ?case
  proof (cases "recvSize = 0 \<or> ExceptionOccurred s1")
    case True
    then show ?thesis
      using rcv res b c1 io1 within_buffer_recv [of sd "Some r"] by (auto simp: echo_loop.simps)
  next
    case False
    let ?qo = "case ss of [] \<Rightarrow> None | q # _ \<Rightarrow> Some q"
    obtain res2 s2 where snd: "SendToSocket h ?qo sd buffer1 (size_t_of recvSize) s1 = (res2, s2)"
      by (cases "SendToSocket h ?qo sd buffer1 (size_t_of recvSize) s1")
    have c2: "syscalls s2 = syscalls s @ recv_calls sd 79 (Some r) @ send_calls sd buffer1 (size_t_of recvSize) ?qo"
      using SendToSocket_syscalls [OF snd] c1 by simp
    have io2: "list_all is_io (send_calls sd buffer1 (size_t_of recvSize) ?qo)"
      by (cases ?qo) (simp_all add: is_io_def)
    have received: "0 < recvSize"
      using False b by (cases "recvSize = - 1") auto
    then have room: "size_t_of recvSize \<le> length buffer1"
      using b by (auto simp: size_t_of_def MAX_BUFFER_SIZE_def)
    have "nat recvSize < length buffer1"
      using b by (auto simp: MAX_BUFFER_SIZE_def)
    then have "buffer1 ! nat recvSize \<in> set buffer1"
      by (rule nth_mem)
    then have terminated: "NUL \<in> set buffer1"
      using received b by simp
    have f2: "faulted s2 = faulted s"
      using SendToSocket_faulted [OF snd room terminated] b by simp
    show ?thesis
    proof (cases res2)
      case None
      then show ?thesis
        using rcv res False snd c2 f2 io1 io2 within_buffer_recv [of sd "Some r"]
          within_buffer_send [of sd buffer1 "size_t_of recvSize" ?qo]
        by (auto simp: echo_loop.simps simp del: recv_calls.simps send_calls.simps)
    next
      case (Some sentSize)
      show ?thesis
      proof (cases "sentSize = 0 \<or> ExceptionOccurred s2")
        case True
        then show ?thesis
          using rcv res False snd Some c2 f2 io1 io2 within_buffer_recv [of sd "Some r"]
            within_buffer_send [of sd buffer1 "size_t_of recvSize" ?qo]
          by (auto simp: echo_loop.simps simp del: recv_calls.simps send_calls.simps)
      next
        case cont: False
        have eq: "echo_loop h sd (r # rs) ss buffer s = echo_loop h sd rs (tl ss) buffer1 s2"
          using rcv res False snd Some cont by (simp add: echo_loop.simps)
        from b have "length buffer1 = MAX_BUFFER_SIZE" by simp
        from Cons.IH [OF this, of "tl ss" s2] obtain new where
          new: "faulted (final (echo_loop h sd rs (tl ss) buffer1 s2)) = faulted s2"
            "syscalls (final (echo_loop h sd rs (tl ss) buffer1 s2)) = syscalls s2 @ new"
            "list_all within_buffer new" "list_all is_io new"
          by blast
        show ?thesis
          unfolding eq
          using new c2 f2 io1 io2 within_buffer_recv [of sd "Some r"]
            within_buffer_send [of sd buffer1 "size_t_of recvSize" ?qo]
          by (auto simp: echo_loop.simps simp del: recv_calls.simps send_calls.simps)
      qed
    qed
  qed
qed

lemma echo_loop_first_call:
  assumes "length buffer = MAX_BUFFER_SIZE"
  shows "\<exists>rest. syscalls (final (echo_loop h sd (r # rs) ss buffer s))
                 = syscalls s @ Recv sd 79 (delivered 79 r) # rest"
proof -
  obtain res s1 where rcv: "ReceiveFromSocket h (Some r) sd buffer MAX_BUFFER_SIZE s = (res, s1)"
    by (cases "ReceiveFromSocket h (Some r) sd buffer MAX_BUFFER_SIZE s")
  from ReceiveFromSocket_blocks [OF rcv] obtain recvSize buffer1 where res: "res = Some (recvSize, buffer1)"
    by (cases res) auto
  note b = ReceiveFromSocket_bounds [OF rcv [unfolded res] assms]
  have c1: "syscalls s1 = syscalls s @ [Recv sd 79 (delivered 79 r)]"
    using ReceiveFromSocket_syscalls [OF rcv] by (simp add: MAX_BUFFER_SIZE_def)
  show ?thesis
  proof (cases "recvSize = 0 \<or> ExceptionOccurred s1")
    case True
    then show ?thesis using rcv res c1 by (auto simp: echo_loop.simps)
  next
    case False
    let ?qo = "case ss of [] \<Rightarrow> None | q # _ \<Rightarrow> Some q"
    obtain res2 s2 where snd: "SendToSocket h ?qo sd buffer1 (size_t_of recvSize) s1 = (res2, s2)"
      by (cases "SendToSocket h ?qo sd buffer1 (size_t_of recvSize) s1")
    have c2: "syscalls s2 = syscalls s @ Recv sd 79 (delivered 79 r) # send_calls sd buffer1 (size_t_of recvSize) ?qo"
      using SendToSocket_syscalls [OF snd] c1 by simp
    show ?thesis
    proof (cases "res2 = None \<or> (\<exists>n. res2 = Some n \<and> (n = 0 \<or> ExceptionOccurred s2))")
      case True
      then show ?thesis using rcv res False snd c2 by (auto simp: echo_loop.simps)
    next
      case cont: False
      then obtain sentSize where "res2 = Some sentSize" "\<not> (sentSize = 0 \<or> ExceptionOccurred s2)"
        by (cases res2) auto
      then have eq: "echo_loop h sd (r # rs) ss buffer s = echo_loop h sd rs (tl ss) buffer1 s2"
        using rcv res False snd by (simp add: echo_loop.simps)
      from b have "length buffer1 = MAX_BUFFER_SIZE" by simp
      from echo_loop_bounds [OF this, of h sd rs "tl ss" s2] obtain new where
        "syscalls (final (echo_loop h sd rs (tl ss) buffer1 s2)) = syscalls s2 @ new"
        by blast
      then show ?thesis unfolding eq using c2 by simp
    qed
  qed
qed

text \<open>
  Claim C2. On an accepted connection, let the client send the chunks \<open>c\<close> of \<open>rounds\<close>,
  none empty and none longer than the buffer capacity minus one (79 bytes), and let each
  \<^verbatim>\<open>send\<close> take \<open>m > 0\<close> bytes. Then the calls of the echo loop are, for each chunk in
  order, the \<^verbatim>\<open>recv\<close> that delivers the chunk followed at once by the \<^verbatim>\<open>send\<close> that is
  handed exactly the bytes of that chunk, before the next \<^verbatim>\<open>recv\<close>: nothing is
  accumulated from one round to the next. This holds when the client then disconnects
  (first part, the whole run), and whatever comes after these rounds (second part).
\<close>

theorem echo_loop_sends_back_each_chunk:
  assumes "host_ok h" and "\<not> ExceptionOccurred s" and "length buffer = MAX_BUFFER_SIZE"
    and "\<forall>(c, m) \<in> set rounds. c \<noteq> [] \<and> length c \<le> MAX_BUFFER_SIZE - 1 \<and> 0 < m"
  shows "syscalls (final (echo_loop h sd (map (Returned \<circ> fst) rounds @ [Returned []])
                            (map (Returned \<circ> snd) rounds) buffer s))
           = syscalls s @ echo_calls sd rounds @ [Recv sd 79 (Returned [])]
         \<and> (\<forall>rs ss. \<exists>rest.
               syscalls (final (echo_loop h sd (map (Returned \<circ> fst) rounds @ rs)
                                  (map (Returned \<circ> snd) rounds @ ss) buffer s))
                 = syscalls s @ echo_calls sd rounds @ rest)"
proof -
  have len: "length buffer = 80" using assms(3) by (simp add: MAX_BUFFER_SIZE_def)
  have ok: "\<forall>(c, m) \<in> set rounds. c \<noteq> [] \<and> length c \<le> 79 \<and> 0 < m"
    using assms(4) by (simp add: MAX_BUFFER_SIZE_def)
  from echo_loop_rounds [OF assms(1,2) len ok, of sd] obtain b' s' where
    run: "\<And>rs ss. echo_loop h sd (map (Returned \<circ> fst) rounds @ rs) (map (Returned \<circ> snd) rounds @ ss) buffer s
                   = echo_loop h sd rs ss b' s'"
    and b': "length b' = 80" and calls: "syscalls s' = syscalls s @ echo_calls sd rounds"
    by blast
  have "syscalls (final (echo_loop h sd (map (Returned \<circ> fst) rounds @ [Returned []])
                            (map (Returned \<circ> snd) rounds @ []) buffer s))
           = syscalls s @ echo_calls sd rounds @ [Recv sd 79 (Returned [])]"
    unfolding run using calls by (simp add: echo_loop_disconnect [OF assms(1) b'])
  moreover have "\<exists>rest. syscalls (final (echo_loop h sd (map (Returned \<circ> fst) rounds @ rs)
                                  (map (Returned \<circ> snd) rounds @ ss) buffer s))
                 = syscalls s @ echo_calls sd rounds @ rest" for rs ss
  proof -
    have "length b' = MAX_BUFFER_SIZE" using b' by (simp add: MAX_BUFFER_SIZE_def)
    from echo_loop_bounds [OF this, of h sd rs ss s'] show ?thesis
      unfolding run using calls by auto
  qed
  ultimately show ?thesis by simp
qed

theorem echo_loop_sends_back_each_chunk_witness:
  "syscalls (final (echo_loop example_host 4 [Returned ''ping'', Returned ''pong'', Returned []]
                      [Returned 4, Returned 4] (replicate 80 NUL) entry_state))
     = [Recv 4 79 (Returned ''ping''), Send 4 ''ping'' (Returned 4),
        Recv 4 79 (Returned ''pong''), Send 4 ''pong'' (Returned 4),
        Recv 4 79 (Returned [])]"
proof -
  have rounds: "\<forall>(c, m) \<in> set [(''ping'', 4 :: nat), (''pong'', 4)].
                  c \<noteq> [] \<and> length c \<le> MAX_BUFFER_SIZE - 1 \<and> 0 < m"
    by (simp add: MAX_BUFFER_SIZE_def)
  have buffer: "length (replicate 80 NUL) = MAX_BUFFER_SIZE"
    by (simp add: MAX_BUFFER_SIZE_def)
  from echo_loop_sends_back_each_chunk [OF example_host_ok entry_state_clean buffer rounds, of 4]
  show ?thesis
    by (simp add: round_calls_def entry_state_def)
qed

text \<open>
  Claim C3. In the echo loop, after any number of completed rounds, a \<^verbatim>\<open>recv\<close> that fails
  (first part) or a \<^verbatim>\<open>send\<close> that fails (second part) ends the loop: the run returns.
  Exactly one exception is raised in that run of the loop, a \<^verbatim>\<open>java/io/IOException\<close> whose
  message is the platform's text for the \<^verbatim>\<open>errno\<close> of the failed call, and that text is
  not empty as long as the platform's texts are not. The failed call is the last \<^verbatim>\<open>recv\<close>
  or \<^verbatim>\<open>send\<close> of the run, whatever replies \<open>rs\<close> and \<open>ss\<close> were still to come.
\<close>

theorem echo_loop_io_failure_raises_once:
  assumes "host_ok h" and "\<not> ExceptionOccurred s" and "length buffer = MAX_BUFFER_SIZE"
    and "\<forall>(c, m) \<in> set rounds. c \<noteq> [] \<and> length c \<le> MAX_BUFFER_SIZE - 1 \<and> 0 < m"
    and "c \<noteq> []" and "length c \<le> MAX_BUFFER_SIZE - 1"
    and "\<forall>n. strerror_text h n \<noteq> []"
  shows "(let run = echo_loop h sd (map (Returned \<circ> fst) rounds @ Failed e # rs)
                      (map (Returned \<circ> snd) rounds @ ss) buffer s
          in returns run
             \<and> thrown (final run) = thrown s @ [(IOException, errno_message h e)]
             \<and> pending (final run) = Some (IOException, errno_message h e)
             \<and> syscalls (final run) = syscalls s @ echo_calls sd rounds @ [Recv sd 79 (Failed e)])
         \<and> (let run = echo_loop h sd (map (Returned \<circ> fst) rounds @ Returned c # rs)
                      (map (Returned \<circ> snd) rounds @ Failed e # ss) buffer s
          in returns run
             \<and> thrown (final run) = thrown s @ [(IOException, errno_message h e)]
             \<and> pending (final run) = Some (IOException, errno_message h e)
             \<and> syscalls (final run) = syscalls s @ echo_calls sd rounds
                                        @ [Recv sd 79 (Returned c), Send sd c (Failed e)])
         \<and> errno_message h e \<noteq> []"
proof -
  have len: "length buffer = 80" using assms(3) by (simp add: MAX_BUFFER_SIZE_def)
  have ok: "\<forall>(c, m) \<in> set rounds. c \<noteq> [] \<and> length c \<le> 79 \<and> 0 < m"
    using assms(4) by (simp add: MAX_BUFFER_SIZE_def)
  have c: "length c \<le> 79" using assms(6) by (simp add: MAX_BUFFER_SIZE_def)
  from echo_loop_rounds [OF assms(1,2) len ok, of sd] obtain b' s' where
    run: "\<And>rs ss. echo_loop h sd (map (Returned \<circ> fst) rounds @ rs) (map (Returned \<circ> snd) rounds @ ss) buffer s
                   = echo_loop h sd rs ss b' s'"
    and b': "length b' = 80" and calls: "syscalls s' = syscalls s @ echo_calls sd rounds"
    and thr: "thrown s' = thrown s" and pend: "pending s' = pending s"
    by blast
  have clean: "\<not> ExceptionOccurred s'"
    using pend assms(2) by (simp add: ExceptionOccurred_def)
  have part1: "let run = echo_loop h sd (map (Returned \<circ> fst) rounds @ Failed e # rs)
                      (map (Returned \<circ> snd) rounds @ ss) buffer s
          in returns run
             \<and> thrown (final run) = thrown s @ [(IOException, errno_message h e)]
             \<and> pending (final run) = Some (IOException, errno_message h e)
             \<and> syscalls (final run) = syscalls s @ echo_calls sd rounds @ [Recv sd 79 (Failed e)]"
    unfolding run Let_def
    using calls thr
    by (simp add: echo_loop_recv_failed [OF assms(1)] ThrowErrnoException_ok_thrown [OF assms(1)]
        ThrowErrnoException_ok_pending [OF assms(1)])
  have part2: "let run = echo_loop h sd (map (Returned \<circ> fst) rounds @ Returned c # rs)
                      (map (Returned \<circ> snd) rounds @ Failed e # ss) buffer s
          in returns run
             \<and> thrown (final run) = thrown s @ [(IOException, errno_message h e)]
             \<and> pending (final run) = Some (IOException, errno_message h e)
             \<and> syscalls (final run) = syscalls s @ echo_calls sd rounds
                                        @ [Recv sd 79 (Returned c), Send sd c (Failed e)]"
    unfolding run Let_def
    using calls thr
    by (simp add: echo_loop_send_failed [OF assms(1) clean b' assms(5) c]
        ThrowErrnoException_ok_thrown [OF assms(1)] ThrowErrnoException_ok_pending [OF assms(1)])
  from part1 part2 errno_message_nonempty [OF assms(7)] show ?thesis by blast
qed

theorem echo_loop_io_failure_raises_once_witness:
  "(let run = echo_loop example_host 4 [Returned ''ping'', Failed 104, Returned ''late'']
                [Returned 4, Returned 4] (replicate 80 NUL) entry_state
    in returns run
       \<and> thrown (final run) = [(IOException, ''Connection reset by peer'')]
       \<and> syscalls (final run) = [Recv 4 79 (Returned ''ping''), Send 4 ''ping'' (Returned 4),
                                  Recv 4 79 (Failed 104)])
   \<and> (let run = echo_loop example_host 4 [Returned ''ping'', Returned ''pong'', Returned ''late'']
                [Returned 4, Failed 104, Returned 4] (replicate 80 NUL) entry_state
    in returns run
       \<and> thrown (final run) = [(IOException, ''Connection reset by peer'')]
       \<and> syscalls (final run) = [Recv 4 79 (Returned ''ping''), Send 4 ''ping'' (Returned 4),
                                  Recv 4 79 (Returned ''pong''), Send 4 ''pong'' (Failed 104)])"
proof -
  have rounds: "\<forall>(c, m) \<in> set [(''ping'', 4 :: nat)].
                  c \<noteq> [] \<and> length c \<le> MAX_BUFFER_SIZE - 1 \<and> 0 < m"
    by (simp add: MAX_BUFFER_SIZE_def)
  have buffer: "length (replicate 80 NUL) = MAX_BUFFER_SIZE"
    by (simp add: MAX_BUFFER_SIZE_def)
  have chunk: "''pong'' \<noteq> []" "length ''pong'' \<le> MAX_BUFFER_SIZE - 1"
    by (simp_all add: MAX_BUFFER_SIZE_def)
  have nonempty: "\<forall>n. strerror_text example_host n \<noteq> []"
    by (simp add: strerror_text_def example_host_def)
  have msg: "errno_message example_host e = ''Connection reset by peer''" for e
    by (simp add: errno_message_def example_host_def)
  from echo_loop_io_failure_raises_once [OF example_host_ok entry_state_clean buffer rounds chunk nonempty,
      of 4 104 "[Returned ''late'']" "[Returned 4]"]
  show ?thesis
    by (simp add: round_calls_def entry_state_def msg Let_def)
qed

text \<open>
  Claim C4. In the echo loop, after any number of completed rounds, a \<^verbatim>\<open>recv\<close> of length
  zero (the client has disconnected) ends the loop without an error: the run returns, no
  exception is raised and none is pending, the last two lines logged are the one before
  the \<^verbatim>\<open>recv\<close> and \<^verbatim>\<open>Client disconnected.\<close> (no line reports received data), and the
  \<^verbatim>\<open>recv\<close> of length zero is the last call: nothing is handed to \<^verbatim>\<open>send\<close> after it.
\<close>

theorem echo_loop_disconnect_is_not_an_error:
  assumes "host_ok h" and "\<not> ExceptionOccurred s" and "length buffer = MAX_BUFFER_SIZE"
    and "\<forall>(c, m) \<in> set rounds. c \<noteq> [] \<and> length c \<le> MAX_BUFFER_SIZE - 1 \<and> 0 < m"
  shows "let run = echo_loop h sd (map (Returned \<circ> fst) rounds @ Returned [] # rs)
                     (map (Returned \<circ> snd) rounds @ ss) buffer s
         in returns run
            \<and> thrown (final run) = thrown s
            \<and> \<not> ExceptionOccurred (final run)
            \<and> logs (final run) = logs s @ echo_logs rounds
                                   @ [''Receiving from the socket...'', ''Client disconnected.'']
            \<and> syscalls (final run) = syscalls s @ echo_calls sd rounds @ [Recv sd 79 (Returned [])]"
proof -
  have len: "length buffer = 80" using assms(3) by (simp add: MAX_BUFFER_SIZE_def)
  have ok: "\<forall>(c, m) \<in> set rounds. c \<noteq> [] \<and> length c \<le> 79 \<and> 0 < m"
    using assms(4) by (simp add: MAX_BUFFER_SIZE_def)
  from echo_loop_rounds [OF assms(1,2) len ok, of sd] obtain b' s' where
    run: "\<And>rs ss. echo_loop h sd (map (Returned \<circ> fst) rounds @ rs) (map (Returned \<circ> snd) rounds @ ss) buffer s
                   = echo_loop h sd rs ss b' s'"
    and b': "length b' = 80" and calls: "syscalls s' = syscalls s @ echo_calls sd rounds"
    and thr: "thrown s' = thrown s" and pend: "pending s' = pending s"
    and lg: "logs s' = logs s @ echo_logs rounds"
    by blast
  have clean: "\<not> ExceptionOccurred s'"
    using pend assms(2) by (simp add: ExceptionOccurred_def)
  show ?thesis
    unfolding run Let_def
    using calls thr lg clean
    by (simp add: echo_loop_disconnect [OF assms(1) b'] log_line_short)
qed

theorem echo_loop_disconnect_is_not_an_error_witness:
  "(let run = echo_loop example_host 4 [Returned ''ping'', Returned [], Returned ''late'']
                [Returned 4, Returned 4] (replicate 80 NUL) entry_state
    in returns run
       \<and> thrown (final run) = []
       \<and> \<not> ExceptionOccurred (final run)
       \<and> logs (final run) = [''Receiving from the socket...'', ''Received 4 bytes: ping'',
                              ''Sending to the socket...'', ''Sent 4 bytes: ping'',
                              ''Receiving from the socket...'', ''Client disconnected.'']
       \<and> syscalls (final run) = [Recv 4 79 (Returned ''ping''), Send 4 ''ping'' (Returned 4),
                                  Recv 4 79 (Returned [])])"
proof -
  have rounds: "\<forall>(c, m) \<in> set [(''ping'', 4 :: nat)].
                  c \<noteq> [] \<and> length c \<le> MAX_BUFFER_SIZE - 1 \<and> 0 < m"
    by (simp add: MAX_BUFFER_SIZE_def)
  have buffer: "length (replicate 80 NUL) = MAX_BUFFER_SIZE"
    by (simp add: MAX_BUFFER_SIZE_def)
  have four: "fmt_d 4 = ''4''"
    by (simp add: fmt_d_def dec.simps digit_def)
  have ping: "fmt_s ''ping'' = ''ping''"
    by (simp add: fmt_s_def NUL_def)
  from echo_loop_disconnect_is_not_an_error [OF example_host_ok entry_state_clean buffer rounds,
      of 4 "[Returned ''late'']" "[Returned 4]"]
  show ?thesis
    by (simp add: round_calls_def round_logs_def log_line_short four ping entry_state_def Let_def)
qed

text \<open>
  Claim C7. A short send is a success and is not retried: when the \<^verbatim>\<open>send\<close> of the
  \<open>N = length c\<close> bytes just received returns \<open>m\<close> with \<open>0 < m < N\<close>, the round makes that
  one \<^verbatim>\<open>send\<close> call only, raises nothing, and the loop goes on with the next round (first
  part); the next call after the short \<^verbatim>\<open>send\<close> is the next \<^verbatim>\<open>recv\<close>, so the remaining
  \<open>N - m\<close> bytes are never sent (second part).
\<close>

theorem short_send_is_accepted:
  assumes "host_ok h" and "\<not> ExceptionOccurred s" and "length buffer = MAX_BUFFER_SIZE"
    and "length c \<le> MAX_BUFFER_SIZE - 1" and "0 < m" and "m < length c"
  shows "echo_loop h sd (Returned c # rs) (Returned m # ss) buffer s
           = echo_loop h sd rs ss (c @ NUL # drop (Suc (length c)) buffer)
               (s\<lparr>methodID := True, logs := logs s @ round_logs c m,
                  syscalls := syscalls s @ [Recv sd 79 (Returned c), Send sd c (Returned m)]\<rparr>)
         \<and> (\<forall>r. \<exists>rest.
               syscalls (final (echo_loop h sd (Returned c # r # rs) (Returned m # ss) buffer s))
                 = syscalls s @ [Recv sd 79 (Returned c), Send sd c (Returned m),
                                 Recv sd 79 (delivered 79 r)] @ rest)"
proof -
  have len: "length buffer = 80" using assms(3) by (simp add: MAX_BUFFER_SIZE_def)
  have c: "c \<noteq> []" "length c \<le> 79" "min m (length c) = m"
    using assms(4,5,6) by (auto simp: MAX_BUFFER_SIZE_def)
  have step: "echo_loop h sd (Returned c # rs) (Returned m # ss) buffer s
           = echo_loop h sd rs ss (c @ NUL # drop (Suc (length c)) buffer)
               (s\<lparr>methodID := True, logs := logs s @ round_logs c m,
                  syscalls := syscalls s @ [Recv sd 79 (Returned c), Send sd c (Returned m)]\<rparr>)"
    for rs ss
    using echo_loop_round [OF assms(1,2) len c(1,2) assms(5), of sd rs ss] c(3)
    by (simp add: round_calls_def)
  have "\<exists>rest. syscalls (final (echo_loop h sd (Returned c # r # rs) (Returned m # ss) buffer s))
                 = syscalls s @ [Recv sd 79 (Returned c), Send sd c (Returned m),
                                 Recv sd 79 (delivered 79 r)] @ rest" for r
  proof -
    have "length (c @ NUL # drop (Suc (length c)) buffer) = MAX_BUFFER_SIZE"
      using c(2) len by (simp add: MAX_BUFFER_SIZE_def)
    from echo_loop_first_call [OF this, of h sd r rs ss
        "s\<lparr>methodID := True, logs := logs s @ round_logs c m,
           syscalls := syscalls s @ [Recv sd 79 (Returned c), Send sd c (Returned m)]\<rparr>"]
    show ?thesis
      unfolding step by simp
  qed
  with step show ?thesis by blast
qed

theorem short_send_is_accepted_witness:
  "syscalls (final (echo_loop example_host 4 [Returned ''ping'', Returned []] [Returned 3]
                      (replicate 80 NUL) entry_state))
     = [Recv 4 79 (Returned ''ping''), Send 4 ''ping'' (Returned 3), Recv 4 79 (Returned [])]"
proof -
  have buffer: "length (replicate 80 NUL) = MAX_BUFFER_SIZE"
    by (simp add: MAX_BUFFER_SIZE_def)
  have chunk: "length ''ping'' \<le> MAX_BUFFER_SIZE - 1" "(0::nat) < 3" "3 < length ''ping''"
    by (simp_all add: MAX_BUFFER_SIZE_def)
  have "length (''ping'' @ NUL # drop (Suc (length ''ping'')) (replicate 80 NUL)) = 80"
    by simp
  from short_send_is_accepted [OF example_host_ok entry_state_clean buffer chunk, THEN conjunct1, of 4 "[Returned []]" "[]"]
    echo_loop_disconnect [OF example_host_ok this]
  show ?thesis
    by (simp add: entry_state_def)
qed

text \<open>
  Claim C8. With the transfer buffer of \<^verbatim>\<open>MAX_BUFFER_SIZE\<close> (80) bytes, a \<^verbatim>\<open>recv\<close> that
  succeeds asks for 79 bytes and stores \<open>N \<le> 79\<close> of them; the buffer then holds these
  bytes, a zero byte at offset \<open>N\<close>, which is inside the buffer, and its old bytes after
  that; no access leaves the array; and the text that is logged is the one that ends at
  that zero byte (first part). In every run of the echo loop, returning or blocked, no
  access leaves the array and every \<^verbatim>\<open>recv\<close> asks for 79 bytes and delivers at most 79
  (second and third part). The buffer of the server has \<^verbatim>\<open>MAX_BUFFER_SIZE\<close> bytes whatever
  the stack held (fourth part).
\<close>

theorem receive_stays_within_buffer:
  assumes "length buffer = MAX_BUFFER_SIZE"
  shows "(let got = take (MAX_BUFFER_SIZE - 1) bytes;
              call = ReceiveFromSocket h (Some (Returned bytes)) sd buffer MAX_BUFFER_SIZE s
          in fst call = Some (int (length got), got @ NUL # drop (Suc (length got)) buffer)
             \<and> length got \<le> 79 \<and> length got < length buffer
             \<and> syscalls (snd call) = syscalls s @ [Recv sd 79 (Returned got)]
             \<and> faulted (snd call) = faulted s
             \<and> (host_ok h \<longrightarrow>
                  logs (snd call)
                    = logs s @ [log_line ''Receiving from the socket...'',
                                if got = [] then log_line ''Client disconnected.''
                                else log_line (''Received '' @ fmt_d (int (length got))
                                               @ '' bytes: '' @ fmt_s got)]))
         \<and> faulted (final (echo_loop h sd rs ss buffer s)) = faulted s
         \<and> (\<exists>new. syscalls (final (echo_loop h sd rs ss buffer s)) = syscalls s @ new
                  \<and> list_all within_buffer new)
         \<and> length (new_buffer garbage) = MAX_BUFFER_SIZE"
proof -
  let ?call = "ReceiveFromSocket h (Some (Returned bytes)) sd buffer MAX_BUFFER_SIZE s"
  let ?got = "take 79 bytes"
  have result: "fst ?call = Some (int (length ?got), ?got @ NUL # drop (Suc (length ?got)) buffer)"
    by (rule ReceiveFromSocket_returned [OF assms])
  then have eq: "?call = (Some (int (length ?got), ?got @ NUL # drop (Suc (length ?got)) buffer), snd ?call)"
    by (metis prod.collapse)
  have calls: "syscalls (snd ?call) = syscalls s @ [Recv sd 79 (Returned ?got)]"
    using ReceiveFromSocket_syscalls [OF eq] by (simp add: MAX_BUFFER_SIZE_def)
  have safe: "faulted (snd ?call) = faulted s"
    using ReceiveFromSocket_bounds [OF eq assms] by simp
  have room: "length ?got \<le> 79" "length ?got < length buffer"
    using assms by (simp_all add: MAX_BUFFER_SIZE_def)
  have lg: "host_ok h \<longrightarrow>
              logs (snd ?call)
                = logs s @ [log_line ''Receiving from the socket...'',
                            if ?got = [] then log_line ''Client disconnected.''
                            else log_line (''Received '' @ fmt_d (int (length ?got))
                                           @ '' bytes: '' @ fmt_s ?got)]"
    using ReceiveFromSocket_logs [OF _ assms] by blast
  have first: "let got = take (MAX_BUFFER_SIZE - 1) bytes; call = ?call
          in fst call = Some (int (length got), got @ NUL # drop (Suc (length got)) buffer)
             \<and> length got \<le> 79 \<and> length got < length buffer
             \<and> syscalls (snd call) = syscalls s @ [Recv sd 79 (Returned got)]
             \<and> faulted (snd call) = faulted s
             \<and> (host_ok h \<longrightarrow>
                  logs (snd call)
                    = logs s @ [log_line ''Receiving from the socket...'',
                                if got = [] then log_line ''Client disconnected.''
                                else log_line (''Received '' @ fmt_d (int (length got))
                                               @ '' bytes: '' @ fmt_s got)])"
    unfolding Let_def
    using result calls safe room lg by (simp add: MAX_BUFFER_SIZE_def)
  have fixed: "length (new_buffer garbage) = MAX_BUFFER_SIZE"
    by (simp add: new_buffer_def)
  from echo_loop_bounds [OF assms, of h sd rs ss s] first fixed show ?thesis
    by blast
qed

theorem receive_stays_within_buffer_witness:
  "fst (ReceiveFromSocket example_host (Some (Returned (replicate 100 (CHR ''a'')))) 4
          (replicate 80 (CHR ''x'')) MAX_BUFFER_SIZE entry_state)
     = Some (79, replicate 79 (CHR ''a'') @ [NUL])
   \<and> logs (snd (ReceiveFromSocket example_host (Some (Returned ''ping'')) 4
          (replicate 80 (CHR ''x'')) MAX_BUFFER_SIZE entry_state))
     = [''Receiving from the socket...'', ''Received 4 bytes: ping'']
   \<and> \<not> faulted (final (echo_loop example_host 4 [Returned (replicate 100 (CHR ''a'')), Returned []]
                          [Returned 100] (replicate 80 (CHR ''x'')) entry_state))"
proof -
  have buffer: "length (replicate 80 (CHR ''x'')) = MAX_BUFFER_SIZE"
    by (simp add: MAX_BUFFER_SIZE_def)
  have four: "fmt_d 4 = ''4''"
    by (simp add: fmt_d_def dec.simps digit_def)
  have ping: "fmt_s ''ping'' = ''ping''"
    by (simp add: fmt_s_def NUL_def)
  from receive_stays_within_buffer [OF buffer, of "replicate 100 (CHR ''a'')" example_host 4 entry_state
      "[Returned (replicate 100 (CHR ''a'')), Returned []]" "[Returned 100]"]
    receive_stays_within_buffer [OF buffer, of "''ping''" example_host 4 entry_state "[]" "[]"]
    example_host_ok
  show ?thesis
    by (simp add: MAX_BUFFER_SIZE_def Let_def entry_state_def log_line_short four ping)
qed

section \<open>Bind and Discover\<close>

subsection \<open>The port as bind gets it\<close>

lemma ucast_port_zero:
  fixes port :: "32 word"
  shows "((ucast port :: 16 word) = 0) = (sint port mod 65536 = 0)"
proof -
  have "port = word_of_int (sint port)" by simp
  then have "(ucast port :: 16 word) = ucast (word_of_int (sint port) :: 32 word)" by simp
  also have "\<dots> = (word_of_int (sint port) :: 16 word)"
    by (rule ucast_down_wi) (simp add: is_down)
  finally have cast: "(ucast port :: 16 word) = word_of_int (sint port)" .
  show ?thesis
    unfolding cast word_of_int_eq_0_iff by (simp add: dvd_eq_mod_eq_0)
qed

lemma unat_ucast_port:
  fixes port :: "32 word"
  shows "unat (ucast port :: 16 word) = unat port mod 65536"
  by (simp add: unsigned_ucast_eq take_bit_eq_mod)

lemma fmt_hu_zero: "fmt_hu 0 = ''0''"
  by (simp add: fmt_hu_def dec.simps digit_def)

subsection \<open>Steps that make no part of Discover\<close>

lemma quiet_refl [simp]: "quiet s s"
  by (simp add: quiet_def)

lemma quiet_trans: "quiet s t \<Longrightarrow> quiet t u \<Longrightarrow> quiet s u"
  by (auto simp: quiet_def)

lemma quiet_same: "syscalls t = syscalls s \<Longrightarrow> logs t = logs s \<Longrightarrow> quiet s t"
  by (simp add: quiet_def)

lemma quiet_calls:
  "quiet s t \<Longrightarrow> \<exists>calls. syscalls t = syscalls s @ calls \<and> list_all (\<lambda>c. \<not> is_getsockname c) calls"
  by (auto simp: quiet_def)

lemma quiet_lines:
  "quiet s t \<Longrightarrow>
   \<exists>calls lines. syscalls t = syscalls s @ calls \<and> logs t = logs s @ lines"
  by (auto simp: quiet_def)

lemma quiet_LogMessage:
  "\<not> reports_port (vsnprintf MAX_LOG_MESSAGE_LENGTH m) \<Longrightarrow> quiet s t \<Longrightarrow> quiet s (LogMessage h m t)"
  by (auto simp: quiet_def LogMessage_def jni_fails_def Let_def)

lemma quiet_Throw: "quiet s t \<Longrightarrow> quiet s (ThrowErrnoException h c e t)"
  by (simp add: quiet_def)

lemma quiet_call: "\<not> is_getsockname c \<Longrightarrow> quiet s t \<Longrightarrow> quiet s (record_call c t)"
  by (auto simp: quiet_def record_call_def)

lemma quiet_fail: "quiet s t \<Longrightarrow> quiet s (fail_with e t)"
  by (simp add: quiet_def fail_with_def)

lemma quiet_faulted: "quiet s t \<Longrightarrow> quiet s (t\<lparr>faulted := b\<rparr>)"
  by (simp add: quiet_def)

lemma quiet_out_of_bounds: "quiet s t \<Longrightarrow> quiet s (out_of_bounds b t)"
  by (simp add: quiet_def)

lemmas quiet_intros =
  quiet_LogMessage quiet_Throw quiet_call quiet_fail quiet_faulted quiet_out_of_bounds

lemmas quiet_simps = is_getsockname_def reports_port_def vsnprintf_def MAX_LOG_MESSAGE_LENGTH_def

lemma quiet_NewTcpSocket: "quiet s t \<Longrightarrow> quiet s (snd (NewTcpSocket h r t))"
  by (auto simp: NewTcpSocket_def sys_socket_def Let_def quiet_simps split: reply.splits
      intro!: quiet_intros)

lemma quiet_BindSocketToPort: "quiet s t \<Longrightarrow> quiet s (BindSocketToPort h r sd port t)"
  by (auto simp: BindSocketToPort_def sys_bind_def Let_def quiet_simps split: reply.splits
      intro!: quiet_intros)

lemma quiet_ListenOnSocket: "quiet s t \<Longrightarrow> quiet s (ListenOnSocket h r sd backlog t)"
  by (auto simp: ListenOnSocket_def sys_listen_def Let_def quiet_simps split: reply.splits
      intro!: quiet_intros)

lemma quiet_LogAddress:
  "\<not> reports_port (take 22 message) \<Longrightarrow> length message \<ge> 22 \<Longrightarrow> quiet s t \<Longrightarrow> quiet s (LogAddress h r message address t)"
  by (auto simp: LogAddress_def sys_inet_ntop_def Let_def quiet_simps split: reply.splits
      intro!: quiet_intros)

lemma quiet_AcceptOnSocket: "quiet s t \<Longrightarrow> quiet s (snd (AcceptOnSocket h r rn sd t))"
  by (auto simp: AcceptOnSocket_def sys_accept_def Let_def quiet_simps
      split: reply.splits prod.splits
      intro!: quiet_intros quiet_LogAddress)

lemma quiet_ReceiveFromSocket: "quiet s t \<Longrightarrow> quiet s (snd (ReceiveFromSocket h ro sd buffer n t))"
  by (auto simp: ReceiveFromSocket_def sys_recv_def store_def c_string_def Let_def quiet_simps
      split: reply.splits option.splits
      intro!: quiet_intros)

lemma quiet_SendToSocket: "quiet s t \<Longrightarrow> quiet s (snd (SendToSocket h qo sd buffer n t))"
  by (auto simp: SendToSocket_def sys_send_def c_string_def Let_def quiet_simps
      split: reply.splits option.splits
      intro!: quiet_intros)

lemma quiet_close: "quiet s t \<Longrightarrow> quiet s (sys_close fd t)"
  by (auto simp: sys_close_def quiet_simps intro!: quiet_intros)

lemma quiet_server_exit: "quiet s t \<Longrightarrow> quiet s (server_exit fd t)"
  by (simp add: server_exit_def quiet_close)

lemma quiet_echo_loop: "quiet s t \<Longrightarrow> quiet s (final (echo_loop h sd rs ss buffer t))"
proof (induction rs arbitrary: ss buffer t)
  case Nil
  then show ?case
    using quiet_ReceiveFromSocket [of s t h None sd buffer MAX_BUFFER_SIZE]
    by (auto simp: echo_loop.simps split: prod.splits)
next
  case (Cons r rs)
  obtain res s1 where rcv: "ReceiveFromSocket h (Some r) sd buffer MAX_BUFFER_SIZE t = (res, s1)"
    by (cases "ReceiveFromSocket h (Some r) sd buffer MAX_BUFFER_SIZE t")
  have q1: "quiet s s1"
    using quiet_ReceiveFromSocket [OF Cons.prems, of h "Some r" sd buffer MAX_BUFFER_SIZE] rcv by simp
  have q2: "quiet s x" if "SendToSocket h qo sd b n s1 = (res2, x)" for qo b n res2 x
    using quiet_SendToSocket [OF q1, of h qo sd b n] that by simp
  show ?case
    using rcv q1
    by (auto simp: echo_loop.simps split: option.splits prod.splits intro: q2 Cons.IH)
qed

lemma quiet_server_listen_on: "quiet s t \<Longrightarrow> quiet s (final (server_listen_on h k fd t))"
proof -
  assume q: "quiet s t"
  let ?s1 = "ListenOnSocket h (listen_reply k) fd 4 t"
  have q1: "quiet s ?s1" by (rule quiet_ListenOnSocket [OF q])
  obtain cs s2 where acc: "AcceptOnSocket h (accept_reply k) (inet_ntop_reply k) fd ?s1 = (cs, s2)"
    by (cases "AcceptOnSocket h (accept_reply k) (inet_ntop_reply k) fd ?s1")
  have q2: "quiet s s2"
    using quiet_AcceptOnSocket [OF q1, of h "accept_reply k" "inet_ntop_reply k" fd] acc by simp
  have q3: "quiet s (final (echo_loop h cs (recv_replies k) (send_replies k) (new_buffer (stack_bytes k)) s2))"
    by (rule quiet_echo_loop [OF q2])
  show ?thesis
    using q1 q2 q3 acc
    by (auto simp: server_listen_on_def Let_def split: outcome.splits
        intro!: quiet_server_exit quiet_close)
qed

lemma quiet_server:
  assumes "port \<noteq> 0"
  shows "quiet s (final (nativeStartTcpServer h k port s))"
proof -
  obtain fd s1 where s1: "NewTcpSocket h (socket_reply k) s = (fd, s1)"
    by (cases "NewTcpSocket h (socket_reply k) s")
  have q1: "quiet s s1"
    using quiet_NewTcpSocket [where s = s and t = s and h = h and r = "socket_reply k", OF quiet_refl] s1 by simp
  have q2: "quiet s (BindSocketToPort h (bind_reply k) fd (ucast port) s1)"
    by (rule quiet_BindSocketToPort [OF q1])
  show ?thesis
    using assms s1 q1 q2
    by (auto simp: nativeStartTcpServer_def Let_def
        intro!: quiet_server_exit quiet_server_listen_on)
qed

subsection \<open>The setup on a host that logs without error\<close>

lemma NewTcpSocket_ok:
  "host_ok h \<Longrightarrow>
   NewTcpSocket h (Returned fd) s =
     (int fd, s\<lparr>methodID := True, logs := logs s @ [log_line ''Constructing a new TCP socket...''],
                syscalls := syscalls s @ [Socket (Returned fd)]\<rparr>)"
  by (simp add: NewTcpSocket_def sys_socket_def record_call_def LogMessage_ok log_line_def Let_def)

lemma BindSocketToPort_syscalls:
  "syscalls (BindSocketToPort h r sd port s) = syscalls s @ [Bind sd (bind_address port) r]"
  by (simp add: BindSocketToPort_def sys_bind_def record_call_def fail_with_def bind_address_def
      Let_def split: reply.splits)

lemma BindSocketToPort_logs:
  "host_ok h \<Longrightarrow>
   logs (BindSocketToPort h r sd port s) = logs s @ [log_line (''Binding to port '' @ fmt_hu port @ ''.'')]"
  by (simp add: BindSocketToPort_def sys_bind_def record_call_def fail_with_def LogMessage_ok
      log_line_def Let_def split: reply.splits)

lemma BindSocketToPort_bound:
  "host_ok h \<Longrightarrow>
   BindSocketToPort h (Returned ()) sd port s =
     s\<lparr>methodID := True, logs := logs s @ [log_line (''Binding to port '' @ fmt_hu port @ ''.'')],
       syscalls := syscalls s @ [Bind sd (bind_address port) (Returned ())]\<rparr>"
  by (simp add: BindSocketToPort_def sys_bind_def record_call_def LogMessage_ok bind_address_def
      log_line_def Let_def)

lemma GetSocketPort_found:
  "host_ok h \<Longrightarrow>
   GetSocketPort h (Returned a) sd s =
     (ntohs (sin_port a),
      s\<lparr>syscalls := syscalls s @ [GetSockName sd (Returned a)], methodID := True,
        logs := logs s @ [log_line (''Binded to random port '' @ fmt_hu (ntohs (sin_port a)) @ ''.'')]\<rparr>)"
  by (simp add: GetSocketPort_def sys_getsockname_def record_call_def LogMessage_ok
      log_line_def Let_def)

lemma GetSocketPort_failed:
  "GetSocketPort h (Failed e) sd s =
     (0, ThrowErrnoException h IOException e
           (s\<lparr>syscalls := syscalls s @ [GetSockName sd (Failed e)], errno := e\<rparr>))"
  by (simp add: GetSocketPort_def sys_getsockname_def record_call_def fail_with_def Let_def)

lemma GetSocketPort_syscalls:
  "syscalls (snd (GetSocketPort h r sd s)) = syscalls s @ [GetSockName sd r]"
  by (cases r)
     (simp_all add: GetSocketPort_def sys_getsockname_def record_call_def fail_with_def Let_def)

lemma ListenOnSocket_ok:
  "host_ok h \<Longrightarrow>
   ListenOnSocket h (Returned ()) sd backlog s =
     s\<lparr>methodID := True,
       logs := logs s @ [log_line (''Listening on socket with a backlog of '' @ fmt_d backlog
                                   @ '' pending connections.'')],
       syscalls := syscalls s @ [Listen sd backlog (Returned ())]\<rparr>"
  by (simp add: ListenOnSocket_def sys_listen_def record_call_def LogMessage_ok log_line_def Let_def)

lemma AcceptOnSocket_ok:
  "host_ok h \<Longrightarrow>
   AcceptOnSocket h (Returned (cfd, peer)) (Returned ip) sd s =
     (int cfd,
      s\<lparr>syscalls := syscalls s @ [Accept sd (Returned (cfd, peer)),
                                    InetNtop (sin_addr peer) (Returned ip)],
        methodID := True,
        logs := logs s @ [log_line ''Waiting for a client connection...'',
                          log_line (''Client connection from  '' @ ip @ '':''
                                    @ fmt_hu (ntohs (sin_port peer)) @ ''.'')]\<rparr>)"
  by (simp add: AcceptOnSocket_def LogAddress_def sys_accept_def sys_inet_ntop_def record_call_def
      LogMessage_ok log_line_def Let_def)

lemma server_exit_syscalls:
  "syscalls (server_exit fd s) = syscalls s @ (if 0 < fd then [Close fd] else [])"
  by (simp add: server_exit_def sys_close_def record_call_def)

lemma server_after_bind:
  assumes "\<not> ExceptionOccurred (snd (NewTcpSocket h (socket_reply k) s))"
  shows "\<exists>rest. syscalls (final (nativeStartTcpServer h k port s))
                 = syscalls (BindSocketToPort h (bind_reply k) (fst (NewTcpSocket h (socket_reply k) s))
                              (ucast port) (snd (NewTcpSocket h (socket_reply k) s))) @ rest"
proof -
  obtain fd s1 where s1: "NewTcpSocket h (socket_reply k) s = (fd, s1)"
    by (cases "NewTcpSocket h (socket_reply k) s")
  let ?s2 = "BindSocketToPort h (bind_reply k) fd (ucast port) s1"
  obtain bound s3 where s3: "GetSocketPort h (getsockname_reply k) fd ?s2 = (bound, s3)"
    by (cases "GetSocketPort h (getsockname_reply k) fd ?s2")
  have c3: "syscalls s3 = syscalls ?s2 @ [GetSockName fd (getsockname_reply k)]"
    using GetSocketPort_syscalls [of h "getsockname_reply k" fd ?s2] s3 by simp
  have listen: "\<exists>rest. syscalls (final (server_listen_on h k fd t)) = syscalls t @ rest" for t
    using quiet_lines [OF quiet_server_listen_on [where s = t and t = t and h = h and k = k and fd = fd, OF quiet_refl]]
    by blast
  from listen [of ?s2] listen [of s3] show ?thesis
    using assms s1 s3 c3
    by (auto simp: nativeStartTcpServer_def server_exit_syscalls Let_def)
qed

lemma server_without_discover:
  assumes "port \<noteq> 0" and "\<not> ExceptionOccurred (snd (NewTcpSocket h (socket_reply k) s))"
  shows "quiet (BindSocketToPort h (bind_reply k) (fst (NewTcpSocket h (socket_reply k) s))
                  (ucast port) (snd (NewTcpSocket h (socket_reply k) s)))
               (final (nativeStartTcpServer h k port s))"
  using assms
  by (auto simp: nativeStartTcpServer_def Let_def split: prod.splits
      intro!: quiet_server_exit quiet_server_listen_on)

subsection \<open>The claims\<close>

text \<open>
  Claim C6. Discover (the \<^verbatim>\<open>getsockname\<close> query and the line that reports the bound port)
  runs if and only if the requested port is 0. Only if: when the port is not 0, no run of
  the server, returning or blocked, on any host and any kernel replies, makes a
  \<^verbatim>\<open>getsockname\<close> call or logs a bound port (first part). If: when socket and bind have
  succeeded and the port is 0, \<^verbatim>\<open>getsockname\<close> is the call after \<^verbatim>\<open>bind\<close>; when it
  succeeds the port it returned is logged; when it fails the run returns with exactly one
  new exception, a \<^verbatim>\<open>java/io/IOException\<close> with the platform's text for the \<^verbatim>\<open>errno\<close> of
  the query, after a \<^verbatim>\<open>bind\<close> that had succeeded, and neither listen nor accept is called
  (second part).
\<close>

theorem discover_iff_port_zero:
  "(port \<noteq> 0 \<longrightarrow> quiet s (final (nativeStartTcpServer h k port s)))
   \<and> (host_ok h \<and> \<not> ExceptionOccurred s \<and> socket_reply k = Returned fd
        \<and> bind_reply k = Returned () \<and> port = 0 \<longrightarrow>
        (case getsockname_reply k of
           Returned a \<Rightarrow>
             (\<exists>calls lines.
                syscalls (final (nativeStartTcpServer h k port s))
                  = syscalls s @ [Socket (Returned fd),
                                  Bind (int fd) (bind_address 0) (Returned ()),
                                  GetSockName (int fd) (Returned a)] @ calls
                \<and> logs (final (nativeStartTcpServer h k port s))
                  = logs s @ [''Constructing a new TCP socket...'', ''Binding to port 0.'',
                              log_line (''Binded to random port '' @ fmt_hu (ntohs (sin_port a)) @ ''.'')]
                      @ lines)
         | Failed e \<Rightarrow>
             returns (nativeStartTcpServer h k port s)
             \<and> syscalls (final (nativeStartTcpServer h k port s))
                  = syscalls s @ [Socket (Returned fd),
                                  Bind (int fd) (bind_address 0) (Returned ()),
                                  GetSockName (int fd) (Failed e)]
                      @ (if 0 < fd then [Close (int fd)] else [])
             \<and> thrown (final (nativeStartTcpServer h k port s))
                  = thrown s @ [(IOException, errno_message h e)]
             \<and> logs (final (nativeStartTcpServer h k port s))
                  = logs s @ [''Constructing a new TCP socket...'', ''Binding to port 0.'']))"
  (is "?only_if \<and> (?given \<longrightarrow> ?discover)")
proof (rule conjI [OF impI [OF quiet_server]], assumption, rule impI)
  assume given: ?given
  then have assms: "host_ok h" "\<not> ExceptionOccurred s" "socket_reply k = Returned fd"
    "bind_reply k = Returned ()" and port: "port = 0"
    by simp_all
  let ?s1 = "s\<lparr>methodID := True, logs := logs s @ [log_line ''Constructing a new TCP socket...''],
                syscalls := syscalls s @ [Socket (Returned fd)]\<rparr>"
  let ?s2 = "BindSocketToPort h (Returned ()) (int fd) (ucast port) ?s1"
  have s1: "NewTcpSocket h (socket_reply k) s = (int fd, ?s1)"
    using assms(1,3) by (simp add: NewTcpSocket_ok)
  have clean1: "\<not> ExceptionOccurred ?s1"
    using assms(2) by simp
  have s2: "?s2 = ?s1\<lparr>methodID := True,
                        logs := logs ?s1 @ [log_line (''Binding to port '' @ fmt_hu (ucast port) @ ''.'')],
                        syscalls := syscalls ?s1 @ [Bind (int fd) (bind_address (ucast port)) (Returned ())]\<rparr>"
    by (rule BindSocketToPort_bound [OF assms(1)])
  have clean2: "\<not> ExceptionOccurred ?s2"
    unfolding s2 using clean1 by simp
  show ?discover
  proof (cases "getsockname_reply k")
    case (Returned a)
    let ?s3 = "snd (GetSocketPort h (Returned a) (int fd) ?s2)"
    have s3: "GetSocketPort h (Returned a) (int fd) ?s2 =
                (ntohs (sin_port a),
                 ?s2\<lparr>syscalls := syscalls ?s2 @ [GetSockName (int fd) (Returned a)], methodID := True,
                      logs := logs ?s2 @ [log_line (''Binded to random port '' @ fmt_hu (ntohs (sin_port a)) @ ''.'')]\<rparr>)"
      by (rule GetSocketPort_found [OF assms(1)])
    have clean3: "\<not> ExceptionOccurred ?s3"
      unfolding s3 using clean2 by simp
    have run: "nativeStartTcpServer h k port s = server_listen_on h k (int fd) ?s3"
      using s1 clean1 clean2 clean3 port assms(4) Returned
      by (auto simp: nativeStartTcpServer_def Let_def split: prod.splits)
    from quiet_lines [OF quiet_server_listen_on [where s = ?s3 and t = ?s3 and h = h and k = k and fd = "int fd", OF quiet_refl]]
    obtain calls lines where
      "syscalls (final (server_listen_on h k (int fd) ?s3)) = syscalls ?s3 @ calls"
      "logs (final (server_listen_on h k (int fd) ?s3)) = logs ?s3 @ lines"
      by blast
    then show ?thesis
      using port Returned run
      by (auto simp: GetSocketPort_found [OF assms(1)] BindSocketToPort_bound [OF assms(1)]
          fmt_hu_zero log_line_short)
  next
    case (Failed e)
    let ?s3 = "ThrowErrnoException h IOException e
                 (?s2\<lparr>syscalls := syscalls ?s2 @ [GetSockName (int fd) (Failed e)], errno := e\<rparr>)"
    have run: "nativeStartTcpServer h k port s = Returns (server_exit (int fd) ?s3)"
      using s1 clean1 clean2 port assms(4) Failed
      by (simp add: nativeStartTcpServer_def GetSocketPort_failed Let_def)
    show ?thesis
      using port Failed run
      by (simp add: server_exit_def sys_close_def record_call_def fmt_hu_zero log_line_short
          BindSocketToPort_bound [OF assms(1)] ThrowErrnoException_ok_thrown [OF assms(1)])
  qed
qed

theorem discover_iff_port_zero_witness:
  "returns (nativeStartTcpServer example_host (example_os\<lparr>getsockname_reply := Failed 9\<rparr>) 0 entry_state)
   \<and> syscalls (final (nativeStartTcpServer example_host (example_os\<lparr>getsockname_reply := Failed 9\<rparr>) 0 entry_state))
       = [Socket (Returned 3), Bind 3 (bind_address 0) (Returned ()), GetSockName 3 (Failed 9), Close 3]
   \<and> thrown (final (nativeStartTcpServer example_host (example_os\<lparr>getsockname_reply := Failed 9\<rparr>) 0 entry_state))
       = [(IOException, ''Connection reset by peer'')]
   \<and> quiet entry_state (final (nativeStartTcpServer example_host example_os 5000 entry_state))"
proof -
  have msg: "errno_message example_host e = ''Connection reset by peer''" for e
    by (simp add: errno_message_def example_host_def)
  have 1: "socket_reply (example_os\<lparr>getsockname_reply := Failed 9\<rparr>) = Returned 3"
    and 2: "bind_reply (example_os\<lparr>getsockname_reply := Failed 9\<rparr>) = Returned ()"
    and 3: "socket_reply example_os = Returned 3" and 4: "bind_reply example_os = Returned ()"
    and 5: "getsockname_reply (example_os\<lparr>getsockname_reply := Failed 9\<rparr>) = Failed 9"
    by (simp_all add: example_os_def)
  have 6: "(5000 :: 32 word) \<noteq> 0"
    by simp
  from discover_iff_port_zero [where port = 0 and s = entry_state and h = example_host
        and k = "example_os\<lparr>getsockname_reply := Failed 9\<rparr>" and fd = 3]
    discover_iff_port_zero [where port = 5000 and s = entry_state and h = example_host
        and k = example_os and fd = 3]
    example_host_ok entry_state_clean 1 2 6
  show ?thesis
    by (simp add: 5 msg entry_state_def)
qed

text \<open>
  Claim C9. The requested port is a 32-bit integer. It is cut to 16 bits for the bind only:
  the \<^verbatim>\<open>bind\<close> call is given the port modulo \<open>2^16\<close> (first and second part), while the test
  that guards Discover reads all 32 bits. Hence for a requested port that is a multiple of
  65536 and not 0, the socket is bound to port 0, the ephemeral port, and yet the run makes
  no \<^verbatim>\<open>getsockname\<close> call and logs no bound port (third part).
\<close>

theorem bind_truncates_port_discover_does_not:
  assumes "host_ok h" and "\<not> ExceptionOccurred s" and "socket_reply k = Returned fd"
  shows "(\<exists>rest. syscalls (final (nativeStartTcpServer h k port s))
                   = syscalls s @ [Socket (Returned fd),
                                   Bind (int fd) (bind_address (ucast port)) (bind_reply k)] @ rest)
         \<and> unat (ucast port :: 16 word) = unat port mod 65536
         \<and> (port \<noteq> 0 \<and> sint port mod 65536 = 0 \<longrightarrow>
              sin_port (bind_address (ucast port)) = 0
              \<and> (\<exists>calls lines.
                    syscalls (final (nativeStartTcpServer h k port s))
                      = syscalls s @ [Socket (Returned fd),
                                      Bind (int fd) (bind_address 0) (bind_reply k)] @ calls
                    \<and> list_all (\<lambda>c. \<not> is_getsockname c) calls
                    \<and> logs (final (nativeStartTcpServer h k port s))
                      = logs s @ [''Constructing a new TCP socket...'', ''Binding to port 0.'']
                          @ lines
                    \<and> list_all (\<lambda>l. \<not> reports_port l) lines))"
    (is "?prefix \<and> ?truncated \<and> (?multiple \<longrightarrow> ?ephemeral)")
proof -
  let ?s1 = "s\<lparr>methodID := True, logs := logs s @ [log_line ''Constructing a new TCP socket...''],
                syscalls := syscalls s @ [Socket (Returned fd)]\<rparr>"
  let ?s2 = "BindSocketToPort h (bind_reply k) (int fd) (ucast port) ?s1"
  have s1: "NewTcpSocket h (socket_reply k) s = (int fd, ?s1)"
    using assms(1,3) by (simp add: NewTcpSocket_ok)
  have clean1: "\<not> ExceptionOccurred (snd (NewTcpSocket h (socket_reply k) s))"
    using assms(2) by (simp add: s1)
  have calls2: "syscalls ?s2 = syscalls s @ [Socket (Returned fd),
                                   Bind (int fd) (bind_address (ucast port)) (bind_reply k)]"
    by (simp add: BindSocketToPort_syscalls)
  have logs2: "logs ?s2 = logs s @ [''Constructing a new TCP socket...'',
                                   log_line (''Binding to port '' @ fmt_hu (ucast port) @ ''.'')]"
    by (simp add: BindSocketToPort_logs [OF assms(1)] log_line_short)
  have first: "\<exists>rest. syscalls (final (nativeStartTcpServer h k port s))
                   = syscalls s @ [Socket (Returned fd),
                                   Bind (int fd) (bind_address (ucast port)) (bind_reply k)] @ rest"
    using server_after_bind [OF clean1, of port] calls2 by (simp add: s1)
  have second: "unat (ucast port :: 16 word) = unat port mod 65536"
    by (rule unat_ucast_port)
  have third: ?ephemeral
    if port: "port \<noteq> 0" "sint port mod 65536 = 0"
  proof -
    have cast: "(ucast port :: 16 word) = 0"
      using port(2) by (simp add: ucast_port_zero)
    have c: "syscalls ?s2 = syscalls s @ [Socket (Returned fd),
                                   Bind (int fd) (bind_address 0) (bind_reply k)]"
      using calls2 by (simp add: cast)
    have l: "logs ?s2 = logs s @ [''Constructing a new TCP socket...'', ''Binding to port 0.'']"
      using logs2 by (simp add: cast fmt_hu_zero log_line_short)
    have p: "sin_port (bind_address (ucast port)) = 0"
      by (simp add: cast bind_address_def htons_def)
    have "quiet ?s2 (final (nativeStartTcpServer h k port s))"
      using server_without_discover [OF port(1) clean1] by (simp add: s1)
    then obtain calls lines where
      "syscalls (final (nativeStartTcpServer h k port s)) = syscalls ?s2 @ calls"
      "logs (final (nativeStartTcpServer h k port s)) = logs ?s2 @ lines"
      "list_all (\<lambda>c. \<not> is_getsockname c) calls" "list_all (\<lambda>l. \<not> reports_port l) lines"
      unfolding quiet_def by blast
    with p show ?thesis
      unfolding c l by auto
  qed
  show ?thesis
  proof (rule conjI [OF first], rule conjI [OF second], rule impI)
    assume "?multiple"
    then show ?ephemeral by (intro third) simp_all
  qed
qed

theorem bind_truncates_port_discover_does_not_witness:
  "\<exists>calls lines.
     syscalls (final (nativeStartTcpServer example_host example_os 65536 entry_state))
       = [Socket (Returned 3), Bind 3 (bind_address 0) (Returned ())] @ calls
     \<and> list_all (\<lambda>c. \<not> is_getsockname c) calls
     \<and> logs (final (nativeStartTcpServer example_host example_os 65536 entry_state))
       = [''Constructing a new TCP socket...'', ''Binding to port 0.''] @ lines
     \<and> list_all (\<lambda>l. \<not> reports_port l) lines"
proof -
  have 1: "socket_reply example_os = Returned 3" and 2: "bind_reply example_os = Returned ()"
    by (simp_all add: example_os_def)
  have 3: "(65536 :: 32 word) \<noteq> 0 \<and> sint (65536 :: 32 word) mod 65536 = 0"
    by simp
  from bind_truncates_port_discover_does_not [OF example_host_ok entry_state_clean 1, of 65536] 3
  show ?thesis
    by (simp add: 2 entry_state_def)
qed

section \<open>The client\<close>

text \<open>
  Claim C10. The client entry point does not use its IP, port and message arguments (first
  part). Its only system calls are the \<^verbatim>\<open>socket\<close> call and, if no exception is pending
  after the socket was constructed, the \<^verbatim>\<open>close\<close> of that socket right after it; there is
  no connect, send or receive (second part). So on a host that logs without error a
  constructed socket is closed at once (third part), and when \<^verbatim>\<open>socket\<close> fails nothing is
  closed (fourth part).
\<close>

theorem client_only_opens_and_closes:
  "nativeStartTcpClient h r ip port message s = nativeStartTcpClient h r ip' port' message' s
   \<and> syscalls (nativeStartTcpClient h r ip port message s)
       = syscalls s @ Socket r # (if ExceptionOccurred (snd (NewTcpSocket h r s)) then []
                                   else [Close (fst (NewTcpSocket h r s))])
   \<and> (host_ok h \<and> \<not> ExceptionOccurred s \<longrightarrow>
        syscalls (nativeStartTcpClient h (Returned fd) ip port message s)
          = syscalls s @ [Socket (Returned fd), Close (int fd)])
   \<and> syscalls (nativeStartTcpClient h (Failed e) ip port message s) = syscalls s @ [Socket (Failed e)]"
proof -
  have calls: "syscalls (snd (NewTcpSocket h r s)) = syscalls s @ [Socket r]" for r
    by (cases r) (simp_all add: NewTcpSocket_def sys_socket_def record_call_def fail_with_def Let_def)
  have 1: "nativeStartTcpClient h r ip port message s = nativeStartTcpClient h r ip' port' message' s"
    by (simp add: nativeStartTcpClient_def)
  have 2: "syscalls (nativeStartTcpClient h r ip port message s)
       = syscalls s @ Socket r # (if ExceptionOccurred (snd (NewTcpSocket h r s)) then []
                                   else [Close (fst (NewTcpSocket h r s))])"
    using calls [of r]
    by (auto simp: nativeStartTcpClient_def sys_close_def record_call_def Let_def split: prod.splits)
  have 3: "syscalls (nativeStartTcpClient h (Returned fd) ip port message s)
          = syscalls s @ [Socket (Returned fd), Close (int fd)]"
    if "host_ok h" "\<not> ExceptionOccurred s"
    using that
    by (simp add: nativeStartTcpClient_def NewTcpSocket_ok sys_close_def record_call_def)
  have 4: "syscalls (nativeStartTcpClient h (Failed e) ip port message s) = syscalls s @ [Socket (Failed e)]"
    by (simp add: nativeStartTcpClient_def NewTcpSocket_def sys_socket_def record_call_def
        fail_with_def Let_def)
  from 1 2 3 4 show ?thesis by blast
qed

theorem client_only_opens_and_closes_witness:
  "syscalls (nativeStartTcpClient example_host (Returned 3) ''192.168.1.10'' 5000 ''hello'' entry_state)
     = [Socket (Returned 3), Close 3]"
proof -
  have "syscalls entry_state = []"
    by (simp add: entry_state_def)
  with client_only_opens_and_closes [of example_host "Returned 3" "''192.168.1.10''" 5000 "''hello''"
      entry_state "''192.168.1.10''" 5000 "''hello''" 3 0, THEN conjunct2, THEN conjunct2, THEN conjunct1]
    example_host_ok entry_state_clean
  show ?thesis by simp
qed

section \<open>Cleanup of the descriptors\<close>

text \<open>
  The echo loop as the server enters it: when the setup succeeds on a host that logs
  without error, the run of the server is the run of the echo loop on the accepted
  descriptor, from a state with no exception pending and with a buffer of
  \<^verbatim>\<open>MAX_BUFFER_SIZE\<close> bytes, followed by the close of the accepted descriptor and the
  code at \<^verbatim>\<open>exit\<close>. When the client then sends its chunks and disconnects, and the
  listening descriptor is positive, both descriptors are closed.
\<close>

lemma server_runs_echo_loop:
  assumes "host_ok h" and "\<not> ExceptionOccurred s"
    and "socket_reply k = Returned fd" and "bind_reply k = Returned ()"
    and "port \<noteq> 0 \<or> (\<exists>a. getsockname_reply k = Returned a)"
    and "listen_reply k = Returned ()" and "accept_reply k = Returned (cfd, peer)"
    and "inet_ntop_reply k = Returned ip"
  shows "\<exists>s'. \<not> ExceptionOccurred s' \<and> thrown s' = thrown s
              \<and> length (new_buffer (stack_bytes k)) = MAX_BUFFER_SIZE
              \<and> nativeStartTcpServer h k port s
                  = (case echo_loop h (int cfd) (recv_replies k) (send_replies k)
                            (new_buffer (stack_bytes k)) s' of
                       Blocks t \<Rightarrow> Blocks t
                     | Returns t \<Rightarrow> Returns (server_exit (int fd) (sys_close (int cfd) t)))"
proof -
  obtain s2 where s2: "s2 = BindSocketToPort h (Returned ()) (int fd) (ucast port)
                              (snd (NewTcpSocket h (Returned fd) s))"
    by simp
  have clean2: "\<not> ExceptionOccurred s2" and thrown2: "thrown s2 = thrown s"
    using assms(1,2) by (simp_all add: s2 NewTcpSocket_ok BindSocketToPort_bound)
  obtain s3 where s3: "s3 = (if port = 0 then snd (GetSocketPort h (getsockname_reply k) (int fd) s2) else s2)"
    by simp
  have clean3: "\<not> ExceptionOccurred s3" and thrown3: "thrown s3 = thrown s"
    using assms(1,5) clean2 thrown2 by (auto simp: s3 GetSocketPort_found)
  obtain s5 where s5: "s5 = snd (AcceptOnSocket h (Returned (cfd, peer)) (Returned ip) (int fd)
                                   (ListenOnSocket h (Returned ()) (int fd) 4 s3))"
    by simp
  have clean5: "\<not> ExceptionOccurred s5" and thrown5: "thrown s5 = thrown s"
    using assms(1) clean3 thrown3 by (simp_all add: s5 ListenOnSocket_ok AcceptOnSocket_ok)
  have listen: "server_listen_on h k (int fd) s3
                  = (case echo_loop h (int cfd) (recv_replies k) (send_replies k)
                            (new_buffer (stack_bytes k)) s5 of
                       Blocks t \<Rightarrow> Blocks t
                     | Returns t \<Rightarrow> Returns (server_exit (int fd) (sys_close (int cfd) t)))"
    using assms(1,6,7,8) clean3 clean5
    by (simp add: server_listen_on_def s5 ListenOnSocket_ok AcceptOnSocket_ok Let_def)
  have "nativeStartTcpServer h k port s = server_listen_on h k (int fd) s3"
    using assms(1,2,3,4) clean2 clean3
    by (auto simp: nativeStartTcpServer_def s2 s3 NewTcpSocket_ok Let_def split: prod.splits)
  with listen clean5 thrown5 show ?thesis
    by (auto simp: new_buffer_def)
qed

lemma clean_session_closes_both_descriptors:
  assumes "host_ok h" and "\<not> ExceptionOccurred s"
    and "socket_reply k = Returned fd" and "0 < fd" and "bind_reply k = Returned ()"
    and "port \<noteq> 0 \<or> (\<exists>a. getsockname_reply k = Returned a)"
    and "listen_reply k = Returned ()" and "accept_reply k = Returned (cfd, peer)"
    and "inet_ntop_reply k = Returned ip"
    and "\<forall>(c, m) \<in> set rounds. c \<noteq> [] \<and> length c \<le> MAX_BUFFER_SIZE - 1 \<and> 0 < m"
    and "recv_replies k = map (Returned \<circ> fst) rounds @ Returned [] # rs"
    and "send_replies k = map (Returned \<circ> snd) rounds @ ss"
  shows "returns (nativeStartTcpServer h k port s)
         \<and> thrown (final (nativeStartTcpServer h k port s)) = thrown s
         \<and> (\<exists>setup. syscalls (final (nativeStartTcpServer h k port s))
                       = setup @ echo_calls (int cfd) rounds
                           @ [Recv (int cfd) 79 (Returned []), Close (int cfd), Close (int fd)])"
proof -
  from server_runs_echo_loop [OF assms(1,2,3,5,6,7,8,9)] obtain s' where
    clean: "\<not> ExceptionOccurred s'" and thr: "thrown s' = thrown s"
    and buffer: "length (new_buffer (stack_bytes k)) = MAX_BUFFER_SIZE"
    and run: "nativeStartTcpServer h k port s
                = (case echo_loop h (int cfd) (recv_replies k) (send_replies k)
                          (new_buffer (stack_bytes k)) s' of
                     Blocks t \<Rightarrow> Blocks t
                   | Returns t \<Rightarrow> Returns (server_exit (int fd) (sys_close (int cfd) t)))"
    by blast
  from echo_loop_until_disconnect [OF assms(1) clean buffer assms(10), of "int cfd" rs ss]
  obtain t where
    "echo_loop h (int cfd) (map (Returned \<circ> fst) rounds @ Returned [] # rs)
       (map (Returned \<circ> snd) rounds @ ss) (new_buffer (stack_bytes k)) s' = Returns t"
    "thrown t = thrown s'"
    "syscalls t = syscalls s' @ echo_calls (int cfd) rounds @ [Recv (int cfd) 79 (Returned [])]"
    by blast
  then show ?thesis
    using thr assms(4)
    by (simp add: run assms(11,12) server_exit_def sys_close_def record_call_def)
qed

lemmas run_defs =
  nativeStartTcpServer_def server_listen_on_def server_exit_def NewTcpSocket_def
  BindSocketToPort_def GetSocketPort_def ListenOnSocket_def AcceptOnSocket_def LogAddress_def
  LogMessage_def ThrowErrnoException_def ThrowException_def ThrowNew_def jni_fails_def
  ExceptionOccurred_def sys_socket_def sys_bind_def sys_getsockname_def sys_listen_def
  sys_accept_def sys_inet_ntop_def sys_close_def record_call_def fail_with_def
  vsnprintf_def MAX_LOG_MESSAGE_LENGTH_def IOException_def Let_def
  example_host_def example_os_def entry_state_def bind_address_def open_descriptors_def

text \<open>
  Claim C1 says that after the server entry point returns, the listening descriptor and
  the accepted descriptor have both been closed, whatever way the run ended. The code
  does not do that in two cases, shown here on concrete runs. First run: accept returns
  descriptor 4 and the conversion of the peer address fails; the \<^verbatim>\<open>goto exit\<close> after
  \<^verbatim>\<open>AcceptOnSocket\<close> jumps over \<^verbatim>\<open>close(clientSocket)\<close>, the run returns having closed
  descriptor 3 only, and descriptor 4 stays open. Second run: \<^verbatim>\<open>socket\<close> returns descriptor
  0; the whole session succeeds, and at \<^verbatim>\<open>exit\<close> the test \<^verbatim>\<open>serverSocket > 0\<close> skips the close
  of the listening descriptor, which stays open. (A session that succeeds on a positive
  listening descriptor does close both, as \<open>clean_session_closes_both_descriptors\<close> shows.)
\<close>

theorem server_leaves_accepted_descriptor_open:
  "(let run = nativeStartTcpServer example_host (example_os\<lparr>inet_ntop_reply := Failed 28\<rparr>) 5000
                entry_state
    in returns run
       \<and> syscalls (final run)
           = [Socket (Returned 3),
              Bind 3 (bind_address 5000) (Returned ()),
              Listen 3 4 (Returned ()),
              Accept 3 (Returned (4, \<lparr>sin_family = 2, sin_port = 0xB315, sin_addr = 0x0100007F\<rparr>)),
              InetNtop 0x0100007F (Failed 28),
              Close 3]
       \<and> thrown (final run) = [(IOException, ''Connection reset by peer'')]
       \<and> open_descriptors (syscalls (final run)) = [4])
   \<and> (let run = nativeStartTcpServer example_host (example_os\<lparr>socket_reply := Returned 0\<rparr>) 5000
                entry_state
    in returns run
       \<and> syscalls (final run)
           = [Socket (Returned 0),
              Bind 0 (bind_address 5000) (Returned ()),
              Listen 0 4 (Returned ()),
              Accept 0 (Returned (4, \<lparr>sin_family = 2, sin_port = 0xB315, sin_addr = 0x0100007F\<rparr>)),
              InetNtop 0x0100007F (Returned ''127.0.0.1''),
              Recv 4 79 (Returned ''ping''), Send 4 ''ping'' (Returned 4),
              Recv 4 79 (Returned []),
              Close 4]
       \<and> thrown (final run) = []
       \<and> open_descriptors (syscalls (final run)) = [0])"
  by (simp add: run_defs echo_loop_round echo_loop_disconnect host_ok_def new_buffer_def
      MAX_BUFFER_SIZE_def round_calls_def)

text \<open>
  Claim C5 says that the lifecycle steps run in order, that no step runs after the first
  one that signals failure, and that the cleanup of the descriptors already acquired
  still runs. The order and the short cut hold on these runs, the cleanup does not. First
  run: \<^verbatim>\<open>socket\<close> returns descriptor 0 and \<^verbatim>\<open>bind\<close> fails; no later step runs, and the
  descriptor is not closed, because of the test \<^verbatim>\<open>serverSocket > 0\<close>. Second run, with port
  0: socket, bind, discover, listen and accept are called in that order, accept returns
  descriptor 4 and the conversion of the peer address fails; the echo loop is skipped,
  descriptor 3 is closed, and descriptor 4 is not.
\<close>

theorem server_skips_cleanup_after_failed_step:
  "(let run = nativeStartTcpServer example_host
                (example_os\<lparr>socket_reply := Returned 0, bind_reply := Failed 98\<rparr>) 5000 entry_state
    in returns run
       \<and> syscalls (final run) = [Socket (Returned 0), Bind 0 (bind_address 5000) (Failed 98)]
       \<and> ExceptionOccurred (final run)
       \<and> open_descriptors (syscalls (final run)) = [0])
   \<and> (let run = nativeStartTcpServer example_host (example_os\<lparr>inet_ntop_reply := Failed 28\<rparr>) 0
                entry_state
    in returns run
       \<and> syscalls (final run)
           = [Socket (Returned 3),
              Bind 3 (bind_address 0) (Returned ()),
              GetSockName 3 (Returned \<lparr>sin_family = 2, sin_port = 0x409C, sin_addr = 0\<rparr>),
              Listen 3 4 (Returned ()),
              Accept 3 (Returned (4, \<lparr>sin_family = 2, sin_port = 0xB315, sin_addr = 0x0100007F\<rparr>)),
              InetNtop 0x0100007F (Failed 28),
              Close 3]
       \<and> ExceptionOccurred (final run)
       \<and> open_descriptors (syscalls (final run)) = [4])"
  by (simp add: run_defs)

end
